theory Spec2Isabelle
  imports Main "HOL-Library.Word"
begin

section \<open>The A* global planner plugin (a_star_planner_gpp.cpp)\<close>

text \<open>
  A shallow embedding of \<^verbatim>\<open>cb_global_planner::AStarPlannerGPP\<close>. The planner object is a
  record of its member variables, every member function takes the object and returns it
  updated. The costmap, the transform listener, the constraint evaluator and the search
  primitive are collaborators that the source only calls; they are the fields of an
  environment record, so every theorem holds for whatever they compute.
\<close>

subsection \<open>Data\<close>

text \<open>\<^verbatim>\<open>unsigned int\<close> cell coordinates and \<^verbatim>\<open>unsigned char\<close> cell costs.\<close>

type_synonym uint = "32 word"
type_synonym cost = "8 word"

text \<open>
  \<^verbatim>\<open>tf::Point\<close>: three doubles. The type \<open>'d\<close> stands for \<^verbatim>\<open>double\<close>; the source
  only passes doubles around, subtracts two of them and calls \<^verbatim>\<open>atan2\<close>, and those
  operations are fields of the environment.
\<close>

record 'd point =
  px :: 'd
  py :: 'd
  pz :: 'd

text \<open>The goal constraint: a frame name and a specification string.\<close>

record PositionConstraint =
  frame :: string
  constraint :: string

text \<open>
  \<^verbatim>\<open>geometry_msgs::PoseStamped\<close>, with the fields the source reads or writes. The type
  \<open>'q\<close> stands for the quaternion message.
\<close>

record ('d, 'q) PoseStamped =
  stamp :: nat
  frame_id :: string
  position_x :: 'd
  position_y :: 'd
  position_z :: 'd
  orientation :: 'q

text \<open>
  The arguments of one call of \<^verbatim>\<open>planner_->plan\<close>, named after the variables that
  \<^verbatim>\<open>makePlan\<close> passes in its first call. \<^verbatim>\<open>plan_xs\<close> and \<^verbatim>\<open>plan_ys\<close> are passed by
  reference, so the primitive sees what they hold. The last argument is optional in the
  source: \<open>None\<close> is a call that leaves it out.
\<close>

record search_args =
  goal_xs :: "uint list"
  goal_ys :: "uint list"
  start_x :: uint
  start_y :: uint
  plan_xs_in :: "uint list"
  plan_ys_in :: "uint list"
  reversed :: "bool option"

text \<open>
  The collaborators, as one call of the planner finds them.
  \<^item> The costmap: \<^verbatim>\<open>getSizeInCellsX/Y\<close>, \<^verbatim>\<open>worldToMap\<close> (\<open>None\<close> when it returns false),
    \<^verbatim>\<open>mapToWorld\<close>, \<^verbatim>\<open>getCost\<close>, \<^verbatim>\<open>getGlobalFrameID\<close>, and the two cost constants of
    \<^verbatim>\<open>costmap_2d\<close>.
  \<^item> The transform listener: \<^verbatim>\<open>lookupTransform target source\<close> at time 0; \<open>None\<close> when it
    throws \<^verbatim>\<open>tf::TransformException\<close>, otherwise the transform as a function on points.
    \<open>unassigned_tf\<close> is what a \<^verbatim>\<open>tf::StampedTransform\<close> holds that was declared and never
    assigned.
  \<^item> The constraint evaluator: \<^verbatim>\<open>init\<close> on a specification, and \<^verbatim>\<open>evaluate\<close> of the
    evaluator that was initialised with that specification.
  \<^item> The search primitive \<^verbatim>\<open>AStarPlanner::plan\<close>: what it leaves in \<^verbatim>\<open>plan_xs\<close> and
    \<^verbatim>\<open>plan_ys\<close>. A \<^verbatim>\<open>std::vector<int>\<close> entry is kept as its 32 bits; passing it to
    \<^verbatim>\<open>mapToWorld\<close> converts it to \<^verbatim>\<open>unsigned int\<close>, which keeps the bits.
  \<^item> \<^verbatim>\<open>ros::Time::now\<close>, the double 0, subtraction of doubles, \<^verbatim>\<open>atan2\<close>,
    \<^verbatim>\<open>tf::createQuaternionMsgFromYaw\<close>, and the pose that \<^verbatim>\<open>resize\<close> fills in.
\<close>

record ('d, 'q) env =
  getSizeInCellsX :: uint
  getSizeInCellsY :: uint
  worldToMap :: "'d \<Rightarrow> 'd \<Rightarrow> (uint \<times> uint) option"
  mapToWorld :: "uint \<Rightarrow> uint \<Rightarrow> 'd \<times> 'd"
  getCost :: "uint \<Rightarrow> uint \<Rightarrow> cost"
  getGlobalFrameID :: string
  LETHAL_OBSTACLE :: cost
  INSCRIBED_INFLATED_OBSTACLE :: cost
  lookupTransform :: "string \<Rightarrow> string \<Rightarrow> ('d point \<Rightarrow> 'd point) option"
  unassigned_tf :: "'d point \<Rightarrow> 'd point"
  ce_init :: "string \<Rightarrow> bool"
  ce_evaluate :: "string \<Rightarrow> 'd \<Rightarrow> 'd \<Rightarrow> bool"
  search :: "search_args \<Rightarrow> uint list \<times> uint list"
  time_now :: nat
  d_zero :: 'd
  d_minus :: "'d \<Rightarrow> 'd \<Rightarrow> 'd"
  d_atan2 :: "'d \<Rightarrow> 'd \<Rightarrow> 'd"
  createQuaternionMsgFromYaw :: "'d \<Rightarrow> 'q"
  default_pose :: "('d, 'q) PoseStamped"

text \<open>
  The member variables of the planner that are not pointers to collaborators. A name
  cannot end in an underscore here, so the member \<^verbatim>\<open>initialized_\<close> is the field
  \<open>m_initialized\<close>, and likewise for the stored constraint and the cached region.
\<close>

record 'd planner =
  m_initialized :: bool
  m_position_constraint :: PositionConstraint
  m_goal_positions_in_constraint_frame :: "'d point list"

text \<open>
  What a call of \<^verbatim>\<open>makePlan\<close> asks of the other member functions and of the search
  primitive, in the order of the calls: the region rebuild with its argument and result,
  the projection with the goal cells it produced, the two calls that hand the costmap to
  the search primitive, a search with its arguments and the two vectors it left, and the
  materialisation with the cell path it was given.
\<close>

datatype event =
    is_rebuild: Rebuild PositionConstraint bool
  | is_project: Project "uint list" "uint list"
  | Resize uint uint
  | SetCostmap
  | is_search: Search search_args "uint list \<times> uint list"
  | Materialize "uint list" "uint list"

text \<open>
  The outcome of a call of \<^verbatim>\<open>makePlan\<close>: the returned boolean (\<open>None\<close> when the call
  does not return, see \<open>planToWorld\<close>), the two output parameters, the planner object
  after the call, and the calls made.
\<close>

record ('d, 'q) outcome =
  ret :: "bool option"
  plan_out :: "('d, 'q) PoseStamped list"
  goal_positions_out :: "'d point list"
  planner_out :: "'d planner"
  calls :: "event list"

subsection \<open>initialize\<close>

definition initialize :: "('d, 'q) env \<Rightarrow> 'd planner \<Rightarrow> 'd planner" where
  "initialize e s = s\<lparr>m_initialized := True\<rparr>"

subsection \<open>constraintChanged\<close>

text \<open>
  Modelled from the spec: \<^verbatim>\<open>constraintChanged\<close> is declared in a_star_planner_gpp.h,
  which is not among the sources. The specification has the region "recomputed only when
  the active Goal Constraint changes (identity-by-value check against the previously
  stored constraint)", and "two constraints are equal iff both fields match".
\<close>

definition constraintChanged :: "'d planner \<Rightarrow> PositionConstraint \<Rightarrow> bool" where
  "constraintChanged s pc =
     (\<not> (frame (m_position_constraint s) = frame pc \<and>
         constraint (m_position_constraint s) = constraint pc))"

subsection \<open>updateConstraintPositionsInConstraintFrame\<close>

text \<open>
  The two nested loops over the cells of the costmap, \<open>i\<close> over the columns and \<open>j\<close>
  over the rows: the centre of each cell is taken to the constraint frame and kept when
  the evaluator accepts it.
\<close>

definition sweep_cells ::
  "('d, 'q) env \<Rightarrow> ('d point \<Rightarrow> 'd point) \<Rightarrow> string \<Rightarrow> 'd point list" where
  "sweep_cells e constraint_to_world_tf spec =
     concat (map (\<lambda>i. concat (map (\<lambda>j.
       (let (wx, wy) = mapToWorld e (of_nat i) (of_nat j);
            pw = \<lparr>px = wx, py = wy, pz = d_zero e\<rparr>;
            pc = constraint_to_world_tf pw
        in if ce_evaluate e spec (px pc) (py pc) then [pc] else []))
       [0..<unat (getSizeInCellsY e)]))
       [0..<unat (getSizeInCellsX e)])"

text \<open>
  The cached region is cleared first; then the transform is looked up and the evaluator
  is initialised, and either failure returns false.
\<close>

definition updateConstraintPositionsInConstraintFrame ::
  "('d, 'q) env \<Rightarrow> 'd planner \<Rightarrow> PositionConstraint \<Rightarrow> bool \<times> 'd planner" where
  "updateConstraintPositionsInConstraintFrame e s position_constraint =
     (let s1 = s\<lparr>m_goal_positions_in_constraint_frame := []\<rparr> in
      case lookupTransform e (frame position_constraint) (getGlobalFrameID e) of
        None \<Rightarrow> (False, s1)
      | Some constraint_to_world_tf \<Rightarrow>
          if \<not> ce_init e (constraint position_constraint) then (False, s1)
          else (True, s1\<lparr>m_goal_positions_in_constraint_frame :=
                  sweep_cells e constraint_to_world_tf (constraint position_constraint)\<rparr>))"

subsection \<open>calculateMapConstraintArea\<close>

text \<open>
  The loop over the cached region: each point is transformed and converted to a cell; a
  point off the grid or on a cell with an obstacle cost is passed over, any other point
  is appended to the three output vectors.
\<close>

fun project_points ::
  "('d, 'q) env \<Rightarrow> ('d point \<Rightarrow> 'd point) \<Rightarrow> 'd point list \<Rightarrow>
   uint list \<times> uint list \<times> 'd point list \<Rightarrow> uint list \<times> uint list \<times> 'd point list" where
  "project_points e tf [] out = out"
| "project_points e tf (p # ps) (mx, my, goal_positions) =
     (let pw = tf p in
      case worldToMap e (px pw) (py pw) of
        Some (x, y) \<Rightarrow>
          (let goal_cell_cost = getCost e x y in
           if goal_cell_cost = INSCRIBED_INFLATED_OBSTACLE e \<or> goal_cell_cost = LETHAL_OBSTACLE e
           then project_points e tf ps (mx, my, goal_positions)
           else project_points e tf ps (mx @ [x], my @ [y], goal_positions @ [pw]))
      | None \<Rightarrow> project_points e tf ps (mx, my, goal_positions))"

text \<open>
  The handler of a failed lookup only logs, so the loop then runs with the transform
  object as it was declared.
\<close>

definition calculateMapConstraintArea ::
  "('d, 'q) env \<Rightarrow> 'd planner \<Rightarrow> uint list \<Rightarrow> uint list \<Rightarrow> 'd point list \<Rightarrow>
   uint list \<times> uint list \<times> 'd point list" where
  "calculateMapConstraintArea e s mx my goal_positions =
     (let world_to_constraint_tf =
            (case lookupTransform e (getGlobalFrameID e) (frame (m_position_constraint s)) of
               Some tf \<Rightarrow> tf
             | None \<Rightarrow> unassigned_tf e)
      in project_points e world_to_constraint_tf (m_goal_positions_in_constraint_frame s)
           (mx, my, goal_positions))"

text \<open>
  The projection in the words of the specification: a region point is retained, with its
  world position and its cell, when its world position converts to a cell and the cost of
  the cell is neither obstacle cost.
\<close>

definition retained ::
  "('d, 'q) env \<Rightarrow> ('d point \<Rightarrow> 'd point) \<Rightarrow> 'd point \<Rightarrow> ('d point \<times> uint \<times> uint) option" where
  "retained e tf p =
     (case worldToMap e (px (tf p)) (py (tf p)) of
        None \<Rightarrow> None
      | Some (x, y) \<Rightarrow>
          if getCost e x y = LETHAL_OBSTACLE e \<or> getCost e x y = INSCRIBED_INFLATED_OBSTACLE e
          then None else Some (tf p, x, y))"

subsection \<open>planToWorld\<close>

text \<open>\<^verbatim>\<open>std::vector::resize\<close>: cut to \<open>n\<close> entries, or filled up with the given value.\<close>

definition resize_vec :: "nat \<Rightarrow> 'a \<Rightarrow> 'a list \<Rightarrow> 'a list" where
  "resize_vec n d xs = take n xs @ replicate (n - length xs) d"

text \<open>The sum of two \<^verbatim>\<open>unsigned int\<close> values, which wraps around at \<open>2 ^ 32\<close>.\<close>

definition uint_plus :: "nat \<Rightarrow> nat \<Rightarrow> nat" where
  "uint_plus a b = (a + b) mod 2 ^ 32"

text \<open>
  One round of the loop, for the index \<open>i\<close>. The index and \<open>size\<close> are
  \<^verbatim>\<open>unsigned int\<close>, so their sum wraps around before it is compared with the length.
  The second branch reads the pose before \<open>i\<close>; it is not taken for \<open>i = 0\<close>, where the
  sum is 5 and the branch asks for more than 5 cells, so \<open>i - 1\<close> does not wrap around.
\<close>

definition planToWorld_step ::
  "('d, 'q) env \<Rightarrow> uint list \<Rightarrow> uint list \<Rightarrow> nat \<Rightarrow>
   ('d, 'q) PoseStamped list \<Rightarrow> ('d, 'q) PoseStamped list" where
  "planToWorld_step e plan_xs plan_ys i plan =
     (let (world_x, world_y) = mapToWorld e (plan_xs ! i) (plan_ys ! i);
          p = (plan ! i)\<lparr>stamp := time_now e, frame_id := getGlobalFrameID e,
                 position_x := world_x, position_y := world_y, position_z := d_zero e\<rparr>;
          size = 5;
          k = uint_plus i size
      in if k < length plan_xs then
           (let (world_x, world_y) = mapToWorld e (plan_xs ! k) (plan_ys ! k);
                yaw = d_atan2 e (d_minus e world_y (position_y p))
                        (d_minus e world_x (position_x p))
            in plan[i := p\<lparr>orientation := createQuaternionMsgFromYaw e yaw\<rparr>])
         else if length plan_xs > size then
           plan[i := p\<lparr>orientation := orientation (plan ! (i - 1))\<rparr>]
         else plan[i := p])"

text \<open>
  The whole function. Two cases have no result: a path of \<open>2 ^ 32\<close> cells or more, on
  which the \<^verbatim>\<open>unsigned int\<close> index never reaches the length and the loop does not end,
  and a \<^verbatim>\<open>plan_ys\<close> shorter than \<^verbatim>\<open>plan_xs\<close>, which the loop reads beyond its end.
\<close>

definition planToWorld ::
  "('d, 'q) env \<Rightarrow> uint list \<Rightarrow> uint list \<Rightarrow> ('d, 'q) PoseStamped list \<Rightarrow>
   ('d, 'q) PoseStamped list option" where
  "planToWorld e plan_xs plan_ys plan =
     (if 2 ^ 32 \<le> length plan_xs \<or> length plan_ys < length plan_xs then None
      else Some (fold (planToWorld_step e plan_xs plan_ys) [0..<length plan_xs]
                   (resize_vec (length plan_xs) (default_pose e) plan)))"

subsection \<open>checkPlan\<close>

text \<open>
  The loop over the poses of a plan: a pose that is on the grid and whose cell has one of
  the two obstacle costs ends the loop with false; a pose off the grid is passed over.
\<close>

fun checkPlan :: "('d, 'q) env \<Rightarrow> ('d, 'q) PoseStamped list \<Rightarrow> bool" where
  "checkPlan e [] = True"
| "checkPlan e (p # ps) =
     (case worldToMap e (position_x p) (position_y p) of
        Some (mx, my) \<Rightarrow>
          (let c = getCost e mx my in
           if c = INSCRIBED_INFLATED_OBSTACLE e \<or> c = LETHAL_OBSTACLE e then False
           else checkPlan e ps)
      | None \<Rightarrow> checkPlan e ps)"

subsection \<open>makePlan\<close>

text \<open>
  Lines 47 to 55: the region is rebuilt when the constraint has changed, and the new
  constraint is stored when the rebuild succeeded. The result is whether the call goes
  on, the planner object, and the calls made.
\<close>

definition refresh_region ::
  "('d, 'q) env \<Rightarrow> 'd planner \<Rightarrow> PositionConstraint \<Rightarrow> bool \<times> 'd planner \<times> event list" where
  "refresh_region e s position_constraint =
     (if constraintChanged s position_constraint then
        (case updateConstraintPositionsInConstraintFrame e s position_constraint of
           (True, s') \<Rightarrow>
             (True, s'\<lparr>m_position_constraint := position_constraint\<rparr>,
              [Rebuild position_constraint True])
         | (False, s') \<Rightarrow> (False, s', [Rebuild position_constraint False]))
      else (True, s, []))"

text \<open>
  Lines 66 to 91: the search from the goal cells, and, when it leaves \<^verbatim>\<open>plan_xs\<close>
  empty, the search the other way around from the goal cell in the middle of the vector,
  whose result is reversed.
\<close>

definition find_cell_path ::
  "('d, 'q) env \<Rightarrow> uint list \<Rightarrow> uint list \<Rightarrow> uint \<Rightarrow> uint \<Rightarrow>
   (uint list \<times> uint list) \<times> event list" where
  "find_cell_path e mx_goal my_goal mx_start my_start =
     (let forward = \<lparr>goal_xs = mx_goal, goal_ys = my_goal, start_x = mx_start,
                      start_y = my_start, plan_xs_in = [], plan_ys_in = [],
                      reversed = None\<rparr>;
          (plan_xs, plan_ys) = search e forward
      in if plan_xs = [] then
           (let mx_start_new = mx_goal ! (length mx_goal div 2);
                my_start_new = my_goal ! (length my_goal div 2);
                backward = \<lparr>goal_xs = [mx_start], goal_ys = [my_start],
                             start_x = mx_start_new, start_y = my_start_new,
                             plan_xs_in = plan_xs, plan_ys_in = plan_ys,
                             reversed = Some True\<rparr>;
                (plan_xs', plan_ys') = search e backward
            in ((rev plan_xs', rev plan_ys'),
                [Search forward (plan_xs, plan_ys), Search backward (plan_xs', plan_ys')]))
         else ((plan_xs, plan_ys), [Search forward (plan_xs, plan_ys)]))"

text \<open>
  The whole function. \<open>start\<close> is the origin of the start pose, \<open>plan\<close> and
  \<open>goal_positions\<close> are the output parameters as the caller hands them in.
\<close>

definition makePlan ::
  "('d, 'q) env \<Rightarrow> 'd planner \<Rightarrow> 'd point \<Rightarrow> PositionConstraint \<Rightarrow>
   ('d, 'q) PoseStamped list \<Rightarrow> 'd point list \<Rightarrow> ('d, 'q) outcome" where
  "makePlan e s start position_constraint plan goal_positions =
     (if \<not> m_initialized s then
        \<lparr>ret = Some False, plan_out = plan, goal_positions_out = goal_positions,
         planner_out = s, calls = []\<rparr>
      else if frame position_constraint = [] \<and> constraint position_constraint = [] then
        \<lparr>ret = Some False, plan_out = [], goal_positions_out = [], planner_out = s,
         calls = []\<rparr>
      else
        (case worldToMap e (px start) (py start) of
           None \<Rightarrow>
             \<lparr>ret = Some False, plan_out = [], goal_positions_out = [], planner_out = s,
              calls = []\<rparr>
         | Some (mx_start, my_start) \<Rightarrow>
             (let (updated, s1, c1) = refresh_region e s position_constraint
              in if \<not> updated then
                   \<lparr>ret = Some False, plan_out = [], goal_positions_out = [],
                    planner_out = s1, calls = c1\<rparr>
                 else
                   (let (mx_goal, my_goal, goal_positions') =
                          calculateMapConstraintArea e s1 [] [] [];
                        c2 = c1 @ [Project mx_goal my_goal]
                    in if length mx_goal = 0 then
                         \<lparr>ret = Some False, plan_out = [],
                          goal_positions_out = goal_positions', planner_out = s1,
                          calls = c2\<rparr>
                       else
                         (let c3 = c2 @ [Resize (getSizeInCellsX e) (getSizeInCellsY e),
                                         SetCostmap];
                              ((plan_xs, plan_ys), c4) =
                                find_cell_path e mx_goal my_goal mx_start my_start;
                              c5 = c3 @ c4 @ [Materialize plan_xs plan_ys]
                          in case planToWorld e plan_xs plan_ys [] of
                               None \<Rightarrow>
                                 \<lparr>ret = None, plan_out = [],
                                  goal_positions_out = goal_positions', planner_out = s1,
                                  calls = c5\<rparr>
                             | Some plan' \<Rightarrow>
                                 \<lparr>ret = Some (plan' \<noteq> []), plan_out = plan',
                                  goal_positions_out = goal_positions', planner_out = s1,
                                  calls = c5\<rparr>)))))"

text \<open>
  Modelled from the spec: \<^verbatim>\<open>AStarPlanner::plan\<close> is not among the sources. The
  specification has a cell path in "start-to-goal order" and the primitive "returning
  the path to whichever reachable goal it selects": a search that succeeds leaves a path
  that is not empty, has one y for every x, and ends in one of the goal cells that the
  call was given.
\<close>

definition search_succeeds :: "search_args \<Rightarrow> uint list \<times> uint list \<Rightarrow> bool" where
  "search_succeeds a r =
     (case r of (xs, ys) \<Rightarrow>
        xs \<noteq> [] \<and> length ys = length xs \<and>
        (last xs, last ys) \<in> set (zip (goal_xs a) (goal_ys a)))"

subsection \<open>A small costmap to run the planner on\<close>

text \<open>
  A grid of four cells in a row, with doubles and quaternions read as integers. The world
  point \<open>(x, 0)\<close> with \<open>0 \<le> x < 4\<close> is the cell \<open>(x, 0)\<close>; cell 2 is lethal, cell 3 is
  inscribed. Every transform is the identity, the frame \<open>''lost''\<close> is unknown to the
  transform listener. The evaluator cannot parse the specification \<open>''malformed''\<close>;
  it accepts the points with \<open>2 \<le> x\<close> for the specification \<open>''far''\<close> and the
  points with \<open>x < 2\<close> for any other. The search primitive is left open.
\<close>

definition demo_pose :: "int \<Rightarrow> int \<Rightarrow> int \<Rightarrow> (int, int) PoseStamped" where
  "demo_pose x y q =
     \<lparr>stamp = 0, frame_id = [], position_x = x, position_y = y, position_z = 0,
      orientation = q\<rparr>"

definition demo_env :: "(search_args \<Rightarrow> uint list \<times> uint list) \<Rightarrow> (int, int) env" where
  "demo_env f =
     \<lparr>getSizeInCellsX = 4, getSizeInCellsY = 1,
      worldToMap = (\<lambda>x y. if 0 \<le> x \<and> x < 4 \<and> y = 0 then Some (word_of_int x, 0) else None),
      mapToWorld = (\<lambda>mx my. (uint mx, uint my)),
      getCost = (\<lambda>mx my. if mx = 2 then 254 else if mx = 3 then 253 else 0),
      getGlobalFrameID = ''map'',
      LETHAL_OBSTACLE = 254,
      INSCRIBED_INFLATED_OBSTACLE = 253,
      lookupTransform = (\<lambda>target source.
        if target = ''lost'' \<or> source = ''lost'' then None else Some (\<lambda>p. p)),
      unassigned_tf = (\<lambda>p. p),
      ce_init = (\<lambda>spec. spec \<noteq> ''malformed''),
      ce_evaluate = (\<lambda>spec x y. if spec = ''far'' then 2 \<le> x else x < 2),
      search = f,
      time_now = 7,
      d_zero = 0,
      d_minus = (\<lambda>a b. a - b),
      d_atan2 = (\<lambda>a b. 10 * a + b),
      createQuaternionMsgFromYaw = (\<lambda>a. a),
      default_pose = demo_pose 0 0 (-1)\<rparr>"

text \<open>Three search primitives: one that finds nothing, one that finds a path only the
  other way around, and one that finds a path at once. Both paths run from the scalar
  cell of the call to its first goal cell.\<close>

definition search_nothing :: "search_args \<Rightarrow> uint list \<times> uint list" where
  "search_nothing a = ([], [])"

definition search_line :: "search_args \<Rightarrow> uint list \<times> uint list" where
  "search_line a = ([start_x a, hd (goal_xs a)], [start_y a, hd (goal_ys a)])"

definition search_backward_only :: "search_args \<Rightarrow> uint list \<times> uint list" where
  "search_backward_only a = (if reversed a = Some True then search_line a else ([], []))"

text \<open>A planner that was initialised and has planned for the constraint \<open>near\<close> in
  the frame \<open>beacon\<close>: its cached region is the two free cells.\<close>

definition near_beacon :: PositionConstraint where
  "near_beacon = \<lparr>frame = ''beacon'', constraint = ''near''\<rparr>"

text \<open>Two more constraints in the same frame: one that selects the two obstacle cells,
  and one that the evaluator cannot parse.\<close>

definition far_beacon :: PositionConstraint where
  "far_beacon = \<lparr>frame = ''beacon'', constraint = ''far''\<rparr>"

definition malformed_beacon :: PositionConstraint where
  "malformed_beacon = \<lparr>frame = ''beacon'', constraint = ''malformed''\<rparr>"

definition demo_planner :: "int planner" where
  "demo_planner =
     \<lparr>m_initialized = True, m_position_constraint = near_beacon,
      m_goal_positions_in_constraint_frame =
        [\<lparr>px = 0, py = 0, pz = 0\<rparr>, \<lparr>px = 1, py = 0, pz = 0\<rparr>]\<rparr>"

text \<open>The same planner for a constraint in the frame \<open>lost\<close>, which the transform
  listener knew when the region was built and has lost since.\<close>

definition near_lost :: PositionConstraint where
  "near_lost = \<lparr>frame = ''lost'', constraint = ''near''\<rparr>"

definition lost_planner :: "int planner" where
  "lost_planner = demo_planner\<lparr>m_position_constraint := near_lost\<rparr>"

definition fresh_planner :: "int planner" where
  "fresh_planner =
     \<lparr>m_initialized = False, m_position_constraint = \<lparr>frame = [], constraint = []\<rparr>,
      m_goal_positions_in_constraint_frame = []\<rparr>"

definition origin :: "int point" where
  "origin = \<lparr>px = 0, py = 0, pz = 0\<rparr>"

text \<open>
  \<^verbatim>\<open>geometry_msgs::Quaternion\<close>: four doubles. The identity rotation is
  \<open>(0, 0, 0, 1)\<close>. The constructor of the ROS 1 message sets every number of a
  \<^verbatim>\<open>PoseStamped\<close> to 0 and every string to the empty one, so the pose that
  \<^verbatim>\<open>resize\<close> fills in has the orientation \<open>(0, 0, 0, 0)\<close>.
\<close>

record 'd Quaternion =
  quat_x :: 'd
  quat_y :: 'd
  quat_z :: 'd
  quat_w :: 'd

definition identity_quaternion :: "int Quaternion" where
  "identity_quaternion = \<lparr>quat_x = 0, quat_y = 0, quat_z = 0, quat_w = 1\<rparr>"

definition ros_default_pose :: "(int, int Quaternion) PoseStamped" where
  "ros_default_pose =
     \<lparr>stamp = 0, frame_id = [], position_x = 0, position_y = 0, position_z = 0,
      orientation = \<lparr>quat_x = 0, quat_y = 0, quat_z = 0, quat_w = 0\<rparr>\<rparr>"

text \<open>
  The small costmap once more, with quaternion messages of four numbers, the pose of the
  message constructor as the default, and the search primitive that finds nothing.
\<close>

definition ros_env :: "(int, int Quaternion) env" where
  "ros_env =
     \<lparr>getSizeInCellsX = 4, getSizeInCellsY = 1,
      worldToMap = (\<lambda>x y. if 0 \<le> x \<and> x < 4 \<and> y = 0 then Some (word_of_int x, 0) else None),
      mapToWorld = (\<lambda>mx my. (uint mx, uint my)),
      getCost = (\<lambda>mx my. if mx = 2 then 254 else if mx = 3 then 253 else 0),
      getGlobalFrameID = ''map'',
      LETHAL_OBSTACLE = 254,
      INSCRIBED_INFLATED_OBSTACLE = 253,
      lookupTransform = (\<lambda>target source.
        if target = ''lost'' \<or> source = ''lost'' then None else Some (\<lambda>p. p)),
      unassigned_tf = (\<lambda>p. p),
      ce_init = (\<lambda>spec. spec \<noteq> ''malformed''),
      ce_evaluate = (\<lambda>spec x y. if spec = ''far'' then 2 \<le> x else x < 2),
      search = search_nothing,
      time_now = 7,
      d_zero = 0,
      d_minus = (\<lambda>a b. a - b),
      d_atan2 = (\<lambda>a b. 10 * a + b),
      createQuaternionMsgFromYaw =
        (\<lambda>a. \<lparr>quat_x = 0, quat_y = 0, quat_z = a, quat_w = 1\<rparr>),
      default_pose = ros_default_pose\<rparr>"

subsection \<open>The projection as a filter\<close>

lemma project_points_retained:
  "project_points e tf ps (mx, my, gp) =
     (mx @ map (\<lambda>(w, x, y). x) (List.map_filter (retained e tf) ps),
      my @ map (\<lambda>(w, x, y). y) (List.map_filter (retained e tf) ps),
      gp @ map (\<lambda>(w, x, y). w) (List.map_filter (retained e tf) ps))"
proof (induction ps arbitrary: mx my gp)
  case Nil
  show ?case by (simp add: map_filter_simps)
next
  case (Cons p ps)
  show ?case
  proof (cases "retained e tf p")
    case None
    then show ?thesis
      using Cons.IH [of mx my gp]
      by (auto simp: retained_def map_filter_simps Let_def split: option.splits if_splits)
  next
    case (Some k)
    then show ?thesis
      using Cons.IH
      by (auto simp: retained_def map_filter_simps Let_def split: option.splits if_splits)
  qed
qed

lemma area_lengths:
  assumes "calculateMapConstraintArea e s [] [] [] = (mx, my, gp)"
  shows "length my = length mx" and "length gp = length mx"
  using assms
  by (auto simp: calculateMapConstraintArea_def project_points_retained Let_def)

subsection \<open>The calls that makePlan makes\<close>

lemma constraintChanged_iff: "constraintChanged s pc \<longleftrightarrow> m_position_constraint s \<noteq> pc"
  by (cases pc, cases "m_position_constraint s") (simp add: constraintChanged_def)

lemma refresh_region_calls:
  assumes "refresh_region e s pc = (u, s1, c1)"
  shows "c1 = (if constraintChanged s pc then [Rebuild pc u] else [])"
  using assms
  by (auto simp: refresh_region_def split: if_splits prod.splits bool.splits)

lemma refresh_region_stores:
  assumes "refresh_region e s pc = (True, s1, c1)"
  shows "m_position_constraint s1 = pc" and "m_initialized s1 = m_initialized s"
  using assms
  by (auto simp: refresh_region_def constraintChanged_iff
      updateConstraintPositionsInConstraintFrame_def Let_def
      split: if_splits prod.splits bool.splits option.splits)

lemma find_cell_path_calls:
  assumes "find_cell_path e gx gy sx sy = (p, c4)"
  shows "\<forall>ev \<in> set c4. is_search ev" and "c4 \<noteq> []"
  using assms
  by (auto simp: find_cell_path_def Let_def split: if_splits prod.splits)

lemma find_cell_path_nothing:
  assumes "find_cell_path e mx my sx sy = ((xs, ys), c4)"
    and "\<forall>a xs' ys'. Search a (xs', ys') \<in> set c4 \<longrightarrow> xs' = []"
  shows "xs = []"
proof -
  let ?forward = "\<lparr>goal_xs = mx, goal_ys = my, start_x = sx, start_y = sy, plan_xs_in = [],
                   plan_ys_in = [], reversed = None\<rparr>"
  obtain xs1 ys1 where s1: "search e ?forward = (xs1, ys1)"
    by (cases "search e ?forward")
  have "Search ?forward (xs1, ys1) \<in> set c4"
    using assms(1) s1 by (auto simp: find_cell_path_def Let_def split: if_splits prod.splits)
  with assms(2) have e1: "xs1 = []" by blast
  let ?backward = "\<lparr>goal_xs = [sx], goal_ys = [sy], start_x = mx ! (length mx div 2),
                    start_y = my ! (length my div 2), plan_xs_in = [], plan_ys_in = ys1,
                    reversed = Some True\<rparr>"
  obtain xs2 ys2 where s2: "search e ?backward = (xs2, ys2)"
    by (cases "search e ?backward")
  have "Search ?backward (xs2, ys2) \<in> set c4" and "xs = rev xs2"
    using assms(1) s1 s2 e1 by (auto simp: find_cell_path_def Let_def)
  with assms(2) show ?thesis by auto
qed

lemma find_cell_path_fallback:
  assumes "find_cell_path e mx my sx sy = ((xs, ys), c4)"
    and "Search a ([], ys1) \<in> set c4" and "reversed a = None"
  shows "a = \<lparr>goal_xs = mx, goal_ys = my, start_x = sx, start_y = sy, plan_xs_in = [],
              plan_ys_in = [], reversed = None\<rparr> \<and>
         (\<exists>xs2 ys2.
            search e \<lparr>goal_xs = [sx], goal_ys = [sy], start_x = mx ! (length mx div 2),
                      start_y = my ! (length my div 2), plan_xs_in = [], plan_ys_in = ys1,
                      reversed = Some True\<rparr> = (xs2, ys2) \<and>
            c4 = [Search a ([], ys1),
                  Search \<lparr>goal_xs = [sx], goal_ys = [sy], start_x = mx ! (length mx div 2),
                          start_y = my ! (length my div 2), plan_xs_in = [], plan_ys_in = ys1,
                          reversed = Some True\<rparr> (xs2, ys2)] \<and>
            xs = rev xs2 \<and> ys = rev ys2)"
  using assms
  by (auto simp: find_cell_path_def Let_def split: if_splits prod.splits)

text \<open>
  The seven ways through \<open>makePlan\<close>, each with the outcome it gives: the planner is
  not initialised, the constraint is empty, the start is off the map, the rebuild failed,
  no goal cell was found, the materialisation has no result, or the call ran to its end.
\<close>

lemma makePlan_cases [case_names uninitialized sentinel off_map rebuild_failed no_goal fault planned]:
  fixes e :: "('d, 'q) env"
  assumes "\<not> m_initialized s \<Longrightarrow> 
             makePlan e s start pc plan gps = \<lparr>ret = Some False, plan_out = plan, goal_positions_out = gps, planner_out = s, calls = []\<rparr> \<Longrightarrow> P"
    and "m_initialized s \<Longrightarrow> frame pc = [] \<Longrightarrow> constraint pc = [] \<Longrightarrow>
           makePlan e s start pc plan gps = \<lparr>ret = Some False, plan_out = [], goal_positions_out = [], planner_out = s, calls = []\<rparr> \<Longrightarrow> P"
    and "m_initialized s \<Longrightarrow> \<not> (frame pc = [] \<and> constraint pc = []) \<Longrightarrow>
           worldToMap e (px start) (py start) = None \<Longrightarrow>
           makePlan e s start pc plan gps = \<lparr>ret = Some False, plan_out = [], goal_positions_out = [], planner_out = s, calls = []\<rparr> \<Longrightarrow> P"
    and "\<And>sx sy s1 c1. m_initialized s \<Longrightarrow> \<not> (frame pc = [] \<and> constraint pc = []) \<Longrightarrow>
           worldToMap e (px start) (py start) = Some (sx, sy) \<Longrightarrow>
           refresh_region e s pc = (False, s1, c1) \<Longrightarrow>
           makePlan e s start pc plan gps = \<lparr>ret = Some False, plan_out = [], goal_positions_out = [], planner_out = s1, calls = c1\<rparr> \<Longrightarrow> P"
    and "\<And>sx sy s1 c1 my. m_initialized s \<Longrightarrow> \<not> (frame pc = [] \<and> constraint pc = []) \<Longrightarrow>
           worldToMap e (px start) (py start) = Some (sx, sy) \<Longrightarrow>
           refresh_region e s pc = (True, s1, c1) \<Longrightarrow>
           calculateMapConstraintArea e s1 [] [] [] = ([], my, []) \<Longrightarrow>
           makePlan e s start pc plan gps = \<lparr>ret = Some False, plan_out = [], goal_positions_out = [], planner_out = s1, calls = c1 @ [Project [] my]\<rparr> \<Longrightarrow> P"
    and "\<And>sx sy s1 c1 mx my gp xs ys c4. m_initialized s \<Longrightarrow> \<not> (frame pc = [] \<and> constraint pc = []) \<Longrightarrow>
           worldToMap e (px start) (py start) = Some (sx, sy) \<Longrightarrow>
           refresh_region e s pc = (True, s1, c1) \<Longrightarrow>
           calculateMapConstraintArea e s1 [] [] [] = (mx, my, gp) \<Longrightarrow> mx \<noteq> [] \<Longrightarrow>
           find_cell_path e mx my sx sy = ((xs, ys), c4) \<Longrightarrow>
           planToWorld e xs ys [] = None \<Longrightarrow>
           makePlan e s start pc plan gps = \<lparr>ret = None, plan_out = [], goal_positions_out = gp, planner_out = s1, 
              calls = c1 @ [Project mx my, Resize (getSizeInCellsX e) (getSizeInCellsY e), SetCostmap] @ c4 @ [Materialize xs ys]\<rparr> \<Longrightarrow> P"
    and "\<And>sx sy s1 c1 mx my gp xs ys c4 plan'. m_initialized s \<Longrightarrow> \<not> (frame pc = [] \<and> constraint pc = []) \<Longrightarrow>
           worldToMap e (px start) (py start) = Some (sx, sy) \<Longrightarrow>
           refresh_region e s pc = (True, s1, c1) \<Longrightarrow>
           calculateMapConstraintArea e s1 [] [] [] = (mx, my, gp) \<Longrightarrow> mx \<noteq> [] \<Longrightarrow>
           find_cell_path e mx my sx sy = ((xs, ys), c4) \<Longrightarrow>
           planToWorld e xs ys [] = Some plan' \<Longrightarrow>
           makePlan e s start pc plan gps = \<lparr>ret = Some (plan' \<noteq> []), plan_out = plan', goal_positions_out = gp, planner_out = s1, 
              calls = c1 @ [Project mx my, Resize (getSizeInCellsX e) (getSizeInCellsY e), SetCostmap] @ c4 @ [Materialize xs ys]\<rparr> \<Longrightarrow> P"
  shows P
proof (cases "m_initialized s")
  case False
  then show ?thesis using assms(1) by (simp add: makePlan_def)
next
  case init: True
  show ?thesis
  proof (cases "frame pc = [] \<and> constraint pc = []")
    case True
    then show ?thesis using assms(2) init by (simp add: makePlan_def)
  next
    case ns: False
    show ?thesis
    proof (cases "worldToMap e (px start) (py start)")
      case None
      then show ?thesis using assms(3) init ns by (simp add: makePlan_def)
    next
      case (Some c)
      obtain sx sy where c: "c = (sx, sy)" by (cases c)
      obtain u s1 c1 where rr: "refresh_region e s pc = (u, s1, c1)"
        by (cases "refresh_region e s pc")
      show ?thesis
      proof (cases u)
        case False
        then show ?thesis
          using assms(4) [of sx sy s1 c1] init ns Some c rr by (simp add: makePlan_def)
      next
        case True
        obtain mx my gp where ar: "calculateMapConstraintArea e s1 [] [] [] = (mx, my, gp)"
          by (cases "calculateMapConstraintArea e s1 [] [] []")
        show ?thesis
        proof (cases "mx = []")
          case True
          with area_lengths [OF ar] have "gp = []" by simp
          then show ?thesis
            using assms(5) [of sx sy s1 c1 my] init ns Some c rr \<open>u\<close> ar True
            by (simp add: makePlan_def)
        next
          case False
          obtain xs ys c4 where fc: "find_cell_path e mx my sx sy = ((xs, ys), c4)"
            by (cases "find_cell_path e mx my sx sy") auto
          show ?thesis
          proof (cases "planToWorld e xs ys []")
            case None
            then show ?thesis
              using assms(6) [of sx sy s1 c1 mx my gp xs ys c4] init ns Some c rr \<open>u\<close> ar False fc
              by (simp add: makePlan_def)
          next
            case (Some plan')
            then show ?thesis
              using assms(7) [of sx sy s1 c1 mx my gp xs ys c4 plan'] init ns \<open>worldToMap e (px start) (py start) = Some c\<close> c rr \<open>u\<close> ar False fc
              by (simp add: makePlan_def)
          qed
        qed
      qed
    qed
  qed
qed

lemma makePlan_calls:
  assumes "m_initialized s" and "\<not> (frame pc = [] \<and> constraint pc = [])"
    and "worldToMap e (px start) (py start) = Some (sx, sy)"
    and "refresh_region e s pc = (True, s1, c1)"
    and "calculateMapConstraintArea e s1 [] [] [] = (mx, my, gp)" and "mx \<noteq> []"
    and "find_cell_path e mx my sx sy = ((xs, ys), c4)"
  shows "calls (makePlan e s start pc plan gps) =
           c1 @ [Project mx my, Resize (getSizeInCellsX e) (getSizeInCellsY e), SetCostmap] @
           c4 @ [Materialize xs ys]"
  using assms by (simp add: makePlan_def Let_def split: option.splits)

lemma searched_call:
  assumes "Search a r \<in> set (calls (makePlan e s start pc plan gps))"
  obtains sx sy s1 c1 mx my gp xs ys c4 where
    "worldToMap e (px start) (py start) = Some (sx, sy)"
    "refresh_region e s pc = (True, s1, c1)"
    "calculateMapConstraintArea e s1 [] [] [] = (mx, my, gp)" "mx \<noteq> []"
    "find_cell_path e mx my sx sy = ((xs, ys), c4)"
    "calls (makePlan e s start pc plan gps) =
       c1 @ [Project mx my, Resize (getSizeInCellsX e) (getSizeInCellsY e), SetCostmap] @
       c4 @ [Materialize xs ys]"
    "Search a r \<in> set c4"
proof (cases rule: makePlan_cases [of s e start pc plan gps])
  case (rebuild_failed sx sy s1 c1)
  from refresh_region_calls [OF rebuild_failed(4)] assms
  show ?thesis unfolding rebuild_failed(5) by (auto split: if_splits)
next
  case (no_goal sx sy s1 c1 my)
  from refresh_region_calls [OF no_goal(4)] assms
  show ?thesis unfolding no_goal(6) by (auto split: if_splits)
next
  case (fault sx sy s1 c1 mx my gp xs ys c4)
  from refresh_region_calls [OF fault(4)] assms have "Search a r \<in> set c4"
    unfolding fault(9) by (auto split: if_splits)
  moreover have "calls (makePlan e s start pc plan gps) =
       c1 @ [Project mx my, Resize (getSizeInCellsX e) (getSizeInCellsY e), SetCostmap] @
       c4 @ [Materialize xs ys]"
    unfolding fault(9) by simp
  ultimately show ?thesis
    using that [OF fault(3) fault(4) fault(5) fault(6) fault(7)] by blast
next
  case (planned sx sy s1 c1 mx my gp xs ys c4 plan')
  from refresh_region_calls [OF planned(4)] assms have "Search a r \<in> set c4"
    unfolding planned(9) by (auto split: if_splits)
  moreover have "calls (makePlan e s start pc plan gps) =
       c1 @ [Project mx my, Resize (getSizeInCellsX e) (getSizeInCellsY e), SetCostmap] @
       c4 @ [Materialize xs ys]"
    unfolding planned(9) by simp
  ultimately show ?thesis
    using that [OF planned(3) planned(4) planned(5) planned(6) planned(7)] by blast
qed (use assms in auto)

lemma projected_call_stores:
  assumes "\<exists>ev \<in> set (calls (makePlan e s start pc plan gps)). is_project ev"
  shows "m_position_constraint (planner_out (makePlan e s start pc plan gps)) = pc \<and>
         m_initialized (planner_out (makePlan e s start pc plan gps)) \<and>
         \<not> (frame pc = [] \<and> constraint pc = [])"
proof (cases rule: makePlan_cases [of s e start pc plan gps])
  case (rebuild_failed sx sy s1 c1)
  from refresh_region_calls [OF rebuild_failed(4)] assms
  show ?thesis unfolding rebuild_failed(5) by (auto split: if_splits)
next
  case (no_goal sx sy s1 c1 my)
  from refresh_region_stores [OF no_goal(4)] no_goal(1,2)
  show ?thesis unfolding no_goal(6) by simp
next
  case (fault sx sy s1 c1 mx my gp xs ys c4)
  from refresh_region_stores [OF fault(4)] fault(1,2)
  show ?thesis unfolding fault(9) by simp
next
  case (planned sx sy s1 c1 mx my gp xs ys c4 plan')
  from refresh_region_stores [OF planned(4)] planned(1,2)
  show ?thesis unfolding planned(9) by simp
qed (use assms in auto)

lemma reached_call_rebuilds_iff_changed:
  assumes "m_initialized s" and "\<not> (frame pc = [] \<and> constraint pc = [])"
    and "worldToMap e (px start) (py start) = Some c"
  shows "(\<exists>ev \<in> set (calls (makePlan e s start pc plan gps)). is_rebuild ev) \<longleftrightarrow>
           m_position_constraint s \<noteq> pc"
    and "m_position_constraint s = pc \<Longrightarrow>
           \<exists>ev \<in> set (calls (makePlan e s start pc plan gps)). is_project ev"
proof -
  have "((\<exists>ev \<in> set (calls (makePlan e s start pc plan gps)). is_rebuild ev) \<longleftrightarrow>
           m_position_constraint s \<noteq> pc) \<and>
        (m_position_constraint s = pc \<longrightarrow>
           (\<exists>ev \<in> set (calls (makePlan e s start pc plan gps)). is_project ev))"
  proof (cases rule: makePlan_cases [of s e start pc plan gps])
    case (rebuild_failed sx sy s1 c1)
    from refresh_region_calls [OF rebuild_failed(4)] rebuild_failed(4)
    show ?thesis unfolding rebuild_failed(5)
      by (auto simp: constraintChanged_iff refresh_region_def split: if_splits)
  next
    case (no_goal sx sy s1 c1 my)
    from refresh_region_calls [OF no_goal(4)]
    show ?thesis unfolding no_goal(6) by (auto simp: constraintChanged_iff split: if_splits)
  next
    case (fault sx sy s1 c1 mx my gp xs ys c4)
    from refresh_region_calls [OF fault(4)] find_cell_path_calls(1) [OF fault(7)]
    show ?thesis unfolding fault(9) by (auto simp: constraintChanged_iff split: if_splits)
  next
    case (planned sx sy s1 c1 mx my gp xs ys c4 plan')
    from refresh_region_calls [OF planned(4)] find_cell_path_calls(1) [OF planned(7)]
    show ?thesis unfolding planned(9) by (auto simp: constraintChanged_iff split: if_splits)
  qed (use assms in auto)
  then show "(\<exists>ev \<in> set (calls (makePlan e s start pc plan gps)). is_rebuild ev) \<longleftrightarrow>
           m_position_constraint s \<noteq> pc"
    and "m_position_constraint s = pc \<Longrightarrow>
           \<exists>ev \<in> set (calls (makePlan e s start pc plan gps)). is_project ev"
    by blast+
qed

subsection \<open>The loop of planToWorld\<close>

text \<open>
  A round of the loop writes the pose of its own index and no other, so the pose at
  \<open>i\<close> is final after round \<open>i\<close>, and round \<open>i\<close> finds the poses before \<open>i\<close>
  final and the pose at \<open>i\<close> as \<^verbatim>\<open>resize\<close> left it.
\<close>

lemma planToWorld_no_cells: "planToWorld e [] ys plan = Some []"
  by (simp add: planToWorld_def resize_vec_def)

lemma planToWorld_Some:
  assumes "length xs < 2 ^ 32" and "length xs \<le> length ys"
  shows "\<exists>p. planToWorld e xs ys plan = Some p"
  using assms by (simp add: planToWorld_def)

lemma step_length [simp]: "length (planToWorld_step e xs ys i plan) = length plan"
  by (simp add: planToWorld_step_def Let_def split: prod.splits)

lemma step_other: "j \<noteq> i \<Longrightarrow> planToWorld_step e xs ys i plan ! j = plan ! j"
  by (simp add: planToWorld_step_def Let_def split: prod.splits)

lemma fold_step_length [simp]:
  "length (fold (planToWorld_step e xs ys) js plan) = length plan"
  by (induction js arbitrary: plan) simp_all

lemma fold_step_other:
  "j \<notin> set js \<Longrightarrow> fold (planToWorld_step e xs ys) js plan ! j = plan ! j"
  by (induction js arbitrary: plan) (simp_all add: step_other)

lemma fold_step_at:
  assumes "i < n"
  shows "fold (planToWorld_step e xs ys) [0..<n] plan ! i =
           planToWorld_step e xs ys i (fold (planToWorld_step e xs ys) [0..<i] plan) ! i"
proof -
  from assms have "[0..<n] = [0..<i] @ i # [Suc i..<n]"
    using upt_add_eq_append [of 0 i "n - i"] by (simp add: upt_conv_Cons)
  then show ?thesis by (simp add: fold_step_other)
qed

lemma fold_step_before:
  assumes "j < i" and "i \<le> n"
  shows "fold (planToWorld_step e xs ys) [0..<i] plan ! j =
           fold (planToWorld_step e xs ys) [0..<n] plan ! j"
proof -
  from assms have "[0..<n] = [0..<i] @ [i..<n]"
    using upt_add_eq_append [of 0 i "n - i"] by simp
  with assms show ?thesis by (simp add: fold_step_other)
qed

lemma step_orientation:
  assumes "i < length plan"
  shows "orientation (planToWorld_step e xs ys i plan ! i) =
     (if uint_plus i 5 < length xs then
        createQuaternionMsgFromYaw e
          (d_atan2 e
            (d_minus e (snd (mapToWorld e (xs ! (uint_plus i 5)) (ys ! (uint_plus i 5))))
                       (snd (mapToWorld e (xs ! i) (ys ! i))))
            (d_minus e (fst (mapToWorld e (xs ! (uint_plus i 5)) (ys ! (uint_plus i 5))))
                       (fst (mapToWorld e (xs ! i) (ys ! i)))))
      else if 5 < length xs then orientation (plan ! (i - 1))
      else orientation (plan ! i))"
  using assms by (simp add: planToWorld_step_def Let_def split: prod.splits)

lemma makePlan_ret:
  assumes "m_initialized s" and "\<not> (frame pc = [] \<and> constraint pc = [])"
    and "worldToMap e (px start) (py start) = Some (sx, sy)"
    and "refresh_region e s pc = (True, s1, c1)"
    and "calculateMapConstraintArea e s1 [] [] [] = (mx, my, gp)" and "mx \<noteq> []"
    and "find_cell_path e mx my sx sy = ((xs, ys), c4)"
    and "length xs < 2 ^ 32" and "length xs \<le> length ys"
  shows "ret (makePlan e s start pc plan gps) = Some (xs \<noteq> [])"
    and "goal_positions_out (makePlan e s start pc plan gps) = gp"
    and "planner_out (makePlan e s start pc plan gps) = s1"
proof -
  from assms(8,9) obtain p where p: "planToWorld e xs ys [] = Some p"
    using planToWorld_Some by blast
  then have "length p = length xs"
    by (auto simp: planToWorld_def resize_vec_def split: if_splits)
  then have "p \<noteq> [] \<longleftrightarrow> xs \<noteq> []" by auto
  with p assms(1-7)
  show "ret (makePlan e s start pc plan gps) = Some (xs \<noteq> [])"
    and "goal_positions_out (makePlan e s start pc plan gps) = gp"
    and "planner_out (makePlan e s start pc plan gps) = s1"
    by (auto simp: makePlan_def Let_def)
qed

subsection \<open>The planner on the small costmap\<close>

lemma demo_fields:
  "getGlobalFrameID (demo_env f) = ''map''"
  "lookupTransform (demo_env f) ''map'' ''beacon'' = Some (\<lambda>p. p)"
  "lookupTransform (demo_env f) ''beacon'' ''map'' = Some (\<lambda>p. p)"
  "lookupTransform (demo_env f) ''map'' ''lost'' = None"
  "lookupTransform (demo_env f) ''lost'' ''map'' = None"
  "unassigned_tf (demo_env f) = (\<lambda>p. p)"
  "ce_init (demo_env f) ''near''"
  "\<not> ce_init (demo_env f) ''malformed''"
  "worldToMap (demo_env f) 0 0 = Some (0, 0)"
  "search (demo_env f) = f"
  "getSizeInCellsX (demo_env f) = 4"
  "getSizeInCellsY (demo_env f) = 1"
  by (simp_all add: demo_env_def)

lemma demo_start:
  "m_initialized demo_planner" "\<not> (frame near_beacon = [] \<and> constraint near_beacon = [])"
  "worldToMap (demo_env f) (px origin) (py origin) = Some (0, 0)"
  "m_initialized lost_planner" "\<not> (frame near_lost = [] \<and> constraint near_lost = [])"
  by (simp_all add: demo_planner_def near_beacon_def demo_env_def origin_def lost_planner_def
      near_lost_def)

lemma demo_area:
  "calculateMapConstraintArea (demo_env f) demo_planner [] [] [] =
     ([0, 1], [0, 0], [\<lparr>px = 0, py = 0, pz = 0\<rparr>, \<lparr>px = 1, py = 0, pz = 0\<rparr>])"
  by (simp add: calculateMapConstraintArea_def demo_planner_def near_beacon_def demo_env_def)

lemma demo_refresh:
  "refresh_region (demo_env f) demo_planner near_beacon = (True, demo_planner, [])"
  by (simp add: refresh_region_def constraintChanged_def demo_planner_def)

lemma demo_forward:
  "find_cell_path (demo_env search_line) [0, 1] [0, 0] 0 0 =
     (([0, 0], [0, 0]),
      [Search \<lparr>goal_xs = [0, 1], goal_ys = [0, 0], start_x = 0, start_y = 0, plan_xs_in = [],
               plan_ys_in = [], reversed = None\<rparr> ([0, 0], [0, 0])])"
  by (simp add: find_cell_path_def demo_fields search_line_def)

lemma demo_backward:
  "find_cell_path (demo_env search_backward_only) [0, 1] [0, 0] 0 0 =
     (([0, 1], [0, 0]),
      [Search \<lparr>goal_xs = [0, 1], goal_ys = [0, 0], start_x = 0, start_y = 0, plan_xs_in = [],
               plan_ys_in = [], reversed = None\<rparr> ([], []),
       Search \<lparr>goal_xs = [0], goal_ys = [0], start_x = 1, start_y = 0, plan_xs_in = [],
               plan_ys_in = [], reversed = Some True\<rparr> ([1, 0], [0, 0])])"
  by (simp add: find_cell_path_def demo_fields search_backward_only_def search_line_def)

lemma demo_nothing:
  "find_cell_path (demo_env search_nothing) [0, 1] [0, 0] 0 0 =
     (([], []),
      [Search \<lparr>goal_xs = [0, 1], goal_ys = [0, 0], start_x = 0, start_y = 0, plan_xs_in = [],
               plan_ys_in = [], reversed = None\<rparr> ([], []),
       Search \<lparr>goal_xs = [0], goal_ys = [0], start_x = 1, start_y = 0, plan_xs_in = [],
               plan_ys_in = [], reversed = Some True\<rparr> ([], [])])"
  by (simp add: find_cell_path_def demo_fields search_nothing_def)

lemma demo_far_outcome:
  "makePlan (demo_env f) demo_planner origin far_beacon plan gps =
     \<lparr>ret = Some False, plan_out = [], goal_positions_out = [],
      planner_out = \<lparr>m_initialized = True, m_position_constraint = far_beacon,
        m_goal_positions_in_constraint_frame =
          [\<lparr>px = 2, py = 0, pz = 0\<rparr>, \<lparr>px = 3, py = 0, pz = 0\<rparr>]\<rparr>,
      calls = [Rebuild far_beacon True, Project [] []]\<rparr>"
proof -
  let ?e = "demo_env f"
  let ?s1 = "\<lparr>m_initialized = True, m_position_constraint = far_beacon,
        m_goal_positions_in_constraint_frame =
          [\<lparr>px = 2, py = 0, pz = 0\<rparr>, \<lparr>px = 3, py = 0, pz = 0\<rparr>]\<rparr>"
  have sweep: "sweep_cells ?e (\<lambda>p. p) ''far'' =
      [\<lparr>px = 2, py = 0, pz = 0\<rparr>, \<lparr>px = 3, py = 0, pz = 0\<rparr>]"
    by (simp add: sweep_cells_def demo_env_def upt_rec)
  have far: "ce_init ?e ''far''" by (simp add: demo_env_def)
  have rr: "refresh_region ?e demo_planner far_beacon = (True, ?s1, [Rebuild far_beacon True])"
    by (simp add: refresh_region_def constraintChanged_def
        updateConstraintPositionsInConstraintFrame_def demo_fields far sweep demo_planner_def
        near_beacon_def far_beacon_def)
  have ar: "calculateMapConstraintArea ?e ?s1 [] [] [] = ([], [], [])"
    by (simp add: calculateMapConstraintArea_def far_beacon_def demo_env_def)
  show ?thesis
    by (simp add: makePlan_def rr ar demo_fields origin_def)
       (simp add: demo_planner_def far_beacon_def)
qed

lemma demo_malformed_outcome:
  "makePlan (demo_env f) (demo_planner\<lparr>m_goal_positions_in_constraint_frame := c\<rparr>)
       origin malformed_beacon plan gps =
     \<lparr>ret = Some False, plan_out = [], goal_positions_out = [],
      planner_out = demo_planner\<lparr>m_goal_positions_in_constraint_frame := []\<rparr>,
      calls = [Rebuild malformed_beacon False]\<rparr>"
proof -
  let ?e = "demo_env f"
  have rr: "refresh_region ?e (demo_planner\<lparr>m_goal_positions_in_constraint_frame := c\<rparr>)
      malformed_beacon =
      (False, demo_planner\<lparr>m_goal_positions_in_constraint_frame := []\<rparr>,
       [Rebuild malformed_beacon False])"
    by (simp add: refresh_region_def constraintChanged_def
        updateConstraintPositionsInConstraintFrame_def demo_fields demo_planner_def
        near_beacon_def malformed_beacon_def)
  show ?thesis
    by (simp add: makePlan_def rr demo_fields origin_def)
       (simp add: demo_planner_def malformed_beacon_def)
qed

subsection \<open>The claims\<close>

text \<open>
  Claim C1. When the constraint differs from the stored one and the lookup of the
  transform fails in the rebuild, \<open>makePlan\<close> returns false but the cached region is
  not what it was: it was cleared before the lookup. On the small costmap the planner
  holds the region of the constraint \<open>near_beacon\<close> and plans for it. A call for a
  constraint in the frame \<open>lost\<close> fails in the lookup and leaves the region empty and
  the stored constraint \<open>near_beacon\<close>, so the next call for \<open>near_beacon\<close> does
  not rebuild the region and finds no goal cell.
\<close>

theorem failed_rebuild_empties_the_cached_region:
  "m_goal_positions_in_constraint_frame demo_planner =
     [\<lparr>px = 0, py = 0, pz = 0\<rparr>, \<lparr>px = 1, py = 0, pz = 0\<rparr>] \<and>
   m_position_constraint demo_planner = near_beacon \<and>
   ret (makePlan (demo_env search_line) demo_planner origin near_beacon [] []) = Some True \<and>
   lookupTransform (demo_env search_line) (frame near_lost) (getGlobalFrameID (demo_env search_line)) = None \<and>
   ret (makePlan (demo_env search_line) demo_planner origin near_lost [] []) = Some False \<and>
   m_goal_positions_in_constraint_frame
     (planner_out (makePlan (demo_env search_line) demo_planner origin near_lost [] [])) = [] \<and>
   m_position_constraint
     (planner_out (makePlan (demo_env search_line) demo_planner origin near_lost [] [])) = near_beacon \<and>
   ret (makePlan (demo_env search_line)
     (planner_out (makePlan (demo_env search_line) demo_planner origin near_lost [] []))
     origin near_beacon [] []) = Some False"
proof -
  let ?e = "demo_env search_line"
  let ?s1 = "demo_planner\<lparr>m_goal_positions_in_constraint_frame := []\<rparr>"
  have ok: "ret (makePlan ?e demo_planner origin near_beacon [] []) = Some True"
    using makePlan_ret(1) [OF demo_start(1,2,3) demo_refresh demo_area _ demo_forward]
    by simp
  have rr: "refresh_region ?e demo_planner near_lost = (False, ?s1, [Rebuild near_lost False])"
    by (simp add: refresh_region_def constraintChanged_def demo_planner_def near_beacon_def
        near_lost_def updateConstraintPositionsInConstraintFrame_def demo_fields)
  have r: "makePlan ?e demo_planner origin near_lost [] [] =
      \<lparr>ret = Some False, plan_out = [], goal_positions_out = [], planner_out = ?s1,
       calls = [Rebuild near_lost False]\<rparr>"
    by (simp add: makePlan_def rr demo_start)
  have rr2: "refresh_region ?e ?s1 near_beacon = (True, ?s1, [])"
    by (simp add: refresh_region_def constraintChanged_def demo_planner_def)
  have ar2: "calculateMapConstraintArea ?e ?s1 [] [] [] = ([], [], [])"
    by (simp add: calculateMapConstraintArea_def demo_planner_def near_beacon_def demo_fields)
  have i1: "m_initialized ?s1" by (simp add: demo_planner_def)
  have after: "ret (makePlan ?e ?s1 origin near_beacon [] []) = Some False"
    by (simp add: makePlan_def i1 rr2 ar2 demo_start)
  have before: "m_goal_positions_in_constraint_frame demo_planner =
      [\<lparr>px = 0, py = 0, pz = 0\<rparr>, \<lparr>px = 1, py = 0, pz = 0\<rparr>]"
    "m_position_constraint demo_planner = near_beacon"
    by (simp_all add: demo_planner_def)
  have lost: "lookupTransform ?e (frame near_lost) (getGlobalFrameID ?e) = None"
    by (simp add: demo_fields near_lost_def)
  show ?thesis
    by (simp add: before lost ok r after)
qed

text \<open>
  Claim C2. When the lookup of the transform fails in the projection, the loop over the
  cached region still runs, with the transform object as it was declared, so the goal
  cell set need not be empty and \<open>makePlan\<close> need not return false. On the small
  costmap the frame of the stored constraint is lost, the unassigned transform happens to
  be the identity, and the call finds both goal cells and returns true.
\<close>

theorem failed_projection_lookup_still_projects:
  "lookupTransform (demo_env search_line) (getGlobalFrameID (demo_env search_line))
     (frame (m_position_constraint lost_planner)) = None \<and>
   m_goal_positions_in_constraint_frame lost_planner \<noteq> [] \<and>
   calculateMapConstraintArea (demo_env search_line) lost_planner [] [] [] =
     ([0, 1], [0, 0], [\<lparr>px = 0, py = 0, pz = 0\<rparr>, \<lparr>px = 1, py = 0, pz = 0\<rparr>]) \<and>
   ret (makePlan (demo_env search_line) lost_planner origin near_lost [] []) = Some True"
proof -
  let ?e = "demo_env search_line"
  have rr: "refresh_region ?e lost_planner near_lost = (True, lost_planner, [])"
    by (simp add: refresh_region_def constraintChanged_def lost_planner_def)
  have ar: "calculateMapConstraintArea ?e lost_planner [] [] [] =
      ([0, 1], [0, 0], [\<lparr>px = 0, py = 0, pz = 0\<rparr>, \<lparr>px = 1, py = 0, pz = 0\<rparr>])"
    by (simp add: calculateMapConstraintArea_def lost_planner_def demo_planner_def near_lost_def
        demo_env_def)
  have ok: "ret (makePlan ?e lost_planner origin near_lost [] []) = Some True"
    using makePlan_ret(1) [OF demo_start(4,5,3) rr ar _ demo_forward] by simp
  have lost: "lookupTransform ?e (getGlobalFrameID ?e) (frame (m_position_constraint lost_planner)) = None"
    "m_goal_positions_in_constraint_frame lost_planner \<noteq> []"
    by (simp_all add: lost_planner_def demo_planner_def near_lost_def demo_fields)
  show ?thesis
    by (simp add: lost ar ok)
qed

text \<open>
  Claim C3. For an initialised planner, a start pose on the grid and a constraint that is
  not the empty one: when the projection of the call produced no goal cell, \<open>makePlan\<close>
  returns false and the call made no search.
\<close>

theorem empty_goal_set_fails_without_search:
  assumes "m_initialized s" and "\<not> (frame pc = [] \<and> constraint pc = [])"
    and "worldToMap e (px start) (py start) = Some c"
    and "Project [] my \<in> set (calls (makePlan e s start pc plan gps))"
  shows "ret (makePlan e s start pc plan gps) = Some False \<and>
         (\<forall>ev \<in> set (calls (makePlan e s start pc plan gps)). \<not> is_search ev)"
proof (cases rule: makePlan_cases [of s e start pc plan gps])
  case (rebuild_failed sx sy s1 c1)
  from refresh_region_calls [OF rebuild_failed(4)] assms(4)
  show ?thesis unfolding rebuild_failed(5) by (auto split: if_splits)
next
  case (no_goal sx sy s1 c1 my')
  from refresh_region_calls [OF no_goal(4)]
  show ?thesis unfolding no_goal(6) by (auto split: if_splits)
next
  case (fault sx sy s1 c1 mx my' gp xs ys c4)
  from find_cell_path_calls(1) [OF fault(7)] refresh_region_calls [OF fault(4)] fault(6) assms(4)
  show ?thesis unfolding fault(9) by (auto split: if_splits)
next
  case (planned sx sy s1 c1 mx my' gp xs ys c4 plan')
  from find_cell_path_calls(1) [OF planned(7)] refresh_region_calls [OF planned(4)] planned(6) assms(4)
  show ?thesis unfolding planned(9) by (auto split: if_splits)
qed (use assms in auto)

text \<open>
  On the small costmap the constraint \<open>far_beacon\<close> selects the two obstacle cells,
  so the region is rebuilt and projects to no goal cell.
\<close>

theorem empty_goal_set_fails_without_search_witness:
  "Project [] [] \<in> set (calls (makePlan (demo_env search_line) demo_planner origin far_beacon [] [])) \<and>
   ret (makePlan (demo_env search_line) demo_planner origin far_beacon [] []) = Some False \<and>
   filter is_search
     (calls (makePlan (demo_env search_line) demo_planner origin far_beacon [] [])) = []"
proof -
  have h: "Project [] [] \<in>
      set (calls (makePlan (demo_env search_line) demo_planner origin far_beacon [] []))"
    by (simp add: demo_far_outcome)
  have ne: "\<not> (frame far_beacon = [] \<and> constraint far_beacon = [])"
    by (simp add: far_beacon_def)
  from empty_goal_set_fails_without_search [OF demo_start(1) ne demo_start(3) h] h
  show ?thesis by (simp add: filter_empty_conv)
qed

text \<open>
  Claim C4. In a call of \<open>makePlan\<close> whose forward search (the one without the
  flag) left \<^verbatim>\<open>plan_xs\<close> empty, the goal cell set is not empty and the search is run
  once more and no further: with the start cell as the only goal cell, the goal cell at
  the index \<open>size div 2\<close> as the cell to start from, and the flag set. The cell path
  that is materialised is the reverse of what this second search left. When the second
  search succeeds, the first cell of that path is the start cell.
\<close>

theorem fallback_search_from_the_middle_goal_cell:
  assumes "worldToMap e (px start) (py start) = Some (sx, sy)"
    and "Search a ([], ys1) \<in> set (calls (makePlan e s start pc plan gps))"
    and "reversed a = None"
  shows "\<exists>xs2 ys2 b.
           b = \<lparr>goal_xs = [sx], goal_ys = [sy],
                start_x = goal_xs a ! (length (goal_xs a) div 2),
                start_y = goal_ys a ! (length (goal_ys a) div 2),
                plan_xs_in = [], plan_ys_in = ys1, reversed = Some True\<rparr> \<and>
           Project (goal_xs a) (goal_ys a) \<in> set (calls (makePlan e s start pc plan gps)) \<and>
           goal_xs a \<noteq> [] \<and> length (goal_ys a) = length (goal_xs a) \<and>
           search e b = (xs2, ys2) \<and>
           filter is_search (calls (makePlan e s start pc plan gps)) =
             [Search a ([], ys1), Search b (xs2, ys2)] \<and>
           last (calls (makePlan e s start pc plan gps)) = Materialize (rev xs2) (rev ys2) \<and>
           (search_succeeds b (xs2, ys2) \<longrightarrow> hd (rev xs2) = sx \<and> hd (rev ys2) = sy)"
proof -
  from assms(2) obtain sx' sy' s1 c1 mx my gp xs ys c4 where
    w: "worldToMap e (px start) (py start) = Some (sx', sy')"
    and rr: "refresh_region e s pc = (True, s1, c1)"
    and ar: "calculateMapConstraintArea e s1 [] [] [] = (mx, my, gp)" and ne: "mx \<noteq> []"
    and fc: "find_cell_path e mx my sx' sy' = ((xs, ys), c4)"
    and cs: "calls (makePlan e s start pc plan gps) =
       c1 @ [Project mx my, Resize (getSizeInCellsX e) (getSizeInCellsY e), SetCostmap] @
       c4 @ [Materialize xs ys]"
    and mem: "Search a ([], ys1) \<in> set c4"
    by (rule searched_call)
  from w assms(1) have [simp]: "sx' = sx" "sy' = sy" by simp_all
  let ?b = "\<lparr>goal_xs = [sx], goal_ys = [sy], start_x = mx ! (length mx div 2),
             start_y = my ! (length my div 2), plan_xs_in = [], plan_ys_in = ys1,
             reversed = Some True\<rparr>"
  from find_cell_path_fallback [OF fc mem assms(3)] obtain xs2 ys2 where
    a: "a = \<lparr>goal_xs = mx, goal_ys = my, start_x = sx, start_y = sy, plan_xs_in = [],
              plan_ys_in = [], reversed = None\<rparr>"
    and sb: "search e ?b = (xs2, ys2)"
    and c4: "c4 = [Search a ([], ys1), Search ?b (xs2, ys2)]"
    and rv: "xs = rev xs2" "ys = rev ys2"
    by auto
  have c1: "filter is_search c1 = []"
    using refresh_region_calls [OF rr] by simp
  have ends: "hd (rev xs2) = sx \<and> hd (rev ys2) = sy" if "search_succeeds ?b (xs2, ys2)"
  proof -
    from that have "xs2 \<noteq> []" "ys2 \<noteq> []" "last xs2 = sx" "last ys2 = sy"
      by (auto simp: search_succeeds_def)
    then show ?thesis by (simp add: hd_rev)
  qed
  have "Project (goal_xs a) (goal_ys a) \<in> set (calls (makePlan e s start pc plan gps))"
    by (simp add: cs a)
  moreover have "goal_xs a \<noteq> []" "length (goal_ys a) = length (goal_xs a)"
    using ne area_lengths(1) [OF ar] by (simp_all add: a)
  moreover have "search e (?b\<lparr>start_x := goal_xs a ! (length (goal_xs a) div 2),
      start_y := goal_ys a ! (length (goal_ys a) div 2)\<rparr>) = (xs2, ys2)"
    using sb by (simp add: a)
  moreover have "filter is_search (calls (makePlan e s start pc plan gps)) =
      [Search a ([], ys1), Search ?b (xs2, ys2)]"
    by (simp add: cs c1 c4)
  moreover have "last (calls (makePlan e s start pc plan gps)) = Materialize (rev xs2) (rev ys2)"
    by (simp add: cs rv)
  ultimately show ?thesis using ends by (simp add: a)
qed

text \<open>
  On the small costmap with a search primitive that finds a path only with the flag set:
  the second search starts from the goal cell 1 and leaves the path from 1 to 0, and the
  path from 0 to 1 is materialised.
\<close>

theorem fallback_search_from_the_middle_goal_cell_witness:
  "filter is_search
     (calls (makePlan (demo_env search_backward_only) demo_planner origin near_beacon [] [])) =
     [Search \<lparr>goal_xs = [0, 1], goal_ys = [0, 0], start_x = 0, start_y = 0, plan_xs_in = [],
              plan_ys_in = [], reversed = None\<rparr> ([], []),
      Search \<lparr>goal_xs = [0], goal_ys = [0], start_x = 1, start_y = 0, plan_xs_in = [],
              plan_ys_in = [], reversed = Some True\<rparr> ([1, 0], [0, 0])] \<and>
   last (calls (makePlan (demo_env search_backward_only) demo_planner origin near_beacon [] [])) =
     Materialize [0, 1] [0, 0] \<and>
   search_succeeds \<lparr>goal_xs = [0], goal_ys = [0], start_x = 1, start_y = 0, plan_xs_in = [],
              plan_ys_in = [], reversed = Some True\<rparr> ([1, 0], [0, 0])"
proof -
  let ?e = "demo_env search_backward_only"
  let ?a = "\<lparr>goal_xs = [0, 1], goal_ys = [0, 0], start_x = 0, start_y = 0, plan_xs_in = [],
              plan_ys_in = [], reversed = None\<rparr>"
  have cs: "Search ?a ([], []) \<in>
      set (calls (makePlan ?e demo_planner origin near_beacon [] []))"
    by (simp add: makePlan_calls [OF demo_start(1,2,3) demo_refresh demo_area _ demo_backward])
  have sb: "search ?e \<lparr>goal_xs = [0], goal_ys = [0], start_x = 1, start_y = 0, plan_xs_in = [],
              plan_ys_in = [], reversed = Some True\<rparr> = ([1, 0], [0, 0])"
    by (simp add: demo_fields search_backward_only_def search_line_def)
  from fallback_search_from_the_middle_goal_cell [OF demo_start(3) cs] sb
  show ?thesis by (auto simp: search_succeeds_def)
qed

text \<open>
  The rebuild is not skipped in every second call with the same constraint: a rebuild
  that fails does not store the constraint, so the next call with that constraint
  rebuilds again. On the small costmap the evaluator cannot parse the constraint
  \<open>malformed_beacon\<close>, and the second of two calls with it makes the rebuild and no
  projection.
\<close>

theorem failed_rebuild_is_repeated:
  "calls (makePlan (demo_env search_line)
     (planner_out (makePlan (demo_env search_line) demo_planner origin malformed_beacon [] []))
     origin malformed_beacon [] []) = [Rebuild malformed_beacon False]"
  using demo_malformed_outcome [of search_line "[]" "[]" "[]"]
        demo_malformed_outcome [of search_line
          "m_goal_positions_in_constraint_frame demo_planner" "[]" "[]"]
  by simp

text \<open>
  Claim C5, amended. When a call of \<open>makePlan\<close> got as far as the projection, the
  next call with the same constraint and a start pose on the grid makes no rebuild and
  does make the projection. In a call of an initialised planner with a constraint that is
  not the empty one and a start pose on the grid, the rebuild is made exactly when the
  constraint differs from the stored one.
\<close>

theorem rebuild_only_when_constraint_differs:
  "((\<exists>ev \<in> set (calls (makePlan e s start pc plan gps)). is_project ev) \<and>
    worldToMap e' (px start') (py start') \<noteq> None \<longrightarrow>
      filter is_rebuild
        (calls (makePlan e' (planner_out (makePlan e s start pc plan gps)) start' pc plan' gps')) = [] \<and>
      (\<exists>ev \<in> set (calls (makePlan e' (planner_out (makePlan e s start pc plan gps)) start' pc plan' gps')).
         is_project ev)) \<and>
   (m_initialized s \<and> \<not> (frame pc = [] \<and> constraint pc = []) \<and>
    worldToMap e (px start) (py start) \<noteq> None \<longrightarrow>
      ((\<exists>ev \<in> set (calls (makePlan e s start pc plan gps)). is_rebuild ev) \<longleftrightarrow>
       m_position_constraint s \<noteq> pc))"
proof (intro conjI impI)
  assume a: "(\<exists>ev \<in> set (calls (makePlan e s start pc plan gps)). is_project ev) \<and>
    worldToMap e' (px start') (py start') \<noteq> None"
  let ?s' = "planner_out (makePlan e s start pc plan gps)"
  from a obtain c where c: "worldToMap e' (px start') (py start') = Some c" by auto
  from a projected_call_stores [of e s start pc plan gps]
  have st: "m_position_constraint ?s' = pc" "m_initialized ?s'"
    "\<not> (frame pc = [] \<and> constraint pc = [])" by auto
  from reached_call_rebuilds_iff_changed(1) [OF st(2,3) c, of plan' gps'] st(1)
  show "filter is_rebuild (calls (makePlan e' ?s' start' pc plan' gps')) = []"
    by (simp add: filter_empty_conv)
  from reached_call_rebuilds_iff_changed(2) [OF st(2,3) c st(1)]
  show "\<exists>ev \<in> set (calls (makePlan e' ?s' start' pc plan' gps')). is_project ev" .
next
  assume "m_initialized s \<and> \<not> (frame pc = [] \<and> constraint pc = []) \<and>
    worldToMap e (px start) (py start) \<noteq> None"
  then show "(\<exists>ev \<in> set (calls (makePlan e s start pc plan gps)). is_rebuild ev) \<longleftrightarrow>
       m_position_constraint s \<noteq> pc"
    using reached_call_rebuilds_iff_changed(1) [of s pc e start _ plan gps] by auto
qed

text \<open>
  On the small costmap: the first call with \<open>far_beacon\<close> rebuilds the region, the
  second call with it only projects.
\<close>

theorem rebuild_only_when_constraint_differs_witness:
  "(\<exists>ev \<in> set (calls (makePlan (demo_env search_line) demo_planner origin far_beacon [] [])).
      is_rebuild ev) \<and>
   filter is_rebuild (calls (makePlan (demo_env search_line)
     (planner_out (makePlan (demo_env search_line) demo_planner origin far_beacon [] []))
     origin far_beacon [] [])) = [] \<and>
   (\<exists>ev \<in> set (calls (makePlan (demo_env search_line)
     (planner_out (makePlan (demo_env search_line) demo_planner origin far_beacon [] []))
     origin far_beacon [] [])). is_project ev)"
proof -
  have h1: "\<exists>ev \<in> set (calls (makePlan (demo_env search_line) demo_planner origin far_beacon [] [])).
      is_project ev"
    by (simp add: demo_far_outcome)
  have h2: "worldToMap (demo_env search_line) (px origin) (py origin) \<noteq> None"
    by (simp add: demo_fields origin_def)
  have h3: "m_initialized demo_planner \<and> \<not> (frame far_beacon = [] \<and> constraint far_beacon = [])"
    "m_position_constraint demo_planner \<noteq> far_beacon"
    by (simp_all add: demo_planner_def far_beacon_def near_beacon_def)
  from rebuild_only_when_constraint_differs
         [of "demo_env search_line" demo_planner origin far_beacon "[]" "[]"
             "demo_env search_line" origin "[]" "[]"] h1 h2 h3
  show ?thesis by blast
qed

text \<open>
  Claim C6. For an initialised planner and a constraint whose frame and specification
  are both empty, \<open>makePlan\<close> returns false, and the cached region and the stored
  constraint are what they were before the call.
\<close>

theorem sentinel_constraint_changes_nothing:
  assumes "m_initialized s" and "frame pc = []" and "constraint pc = []"
  shows "ret (makePlan e s start pc plan gps) = Some False \<and>
         m_goal_positions_in_constraint_frame (planner_out (makePlan e s start pc plan gps)) =
           m_goal_positions_in_constraint_frame s \<and>
         m_position_constraint (planner_out (makePlan e s start pc plan gps)) =
           m_position_constraint s"
  using assms by (simp add: makePlan_def)

text \<open>
  The empty constraint on the planner of the small costmap.
\<close>

theorem sentinel_constraint_changes_nothing_witness:
  "ret (makePlan (demo_env search_line) demo_planner origin \<lparr>frame = [], constraint = []\<rparr> [] [])
     = Some False \<and>
   planner_out (makePlan (demo_env search_line) demo_planner origin
     \<lparr>frame = [], constraint = []\<rparr> [] []) = demo_planner"
  using sentinel_constraint_changes_nothing
          [of demo_planner "\<lparr>frame = [], constraint = []\<rparr>" "demo_env search_line" origin "[]" "[]"]
  by (simp add: makePlan_def demo_planner_def)

text \<open>
  The default orientation is not the identity: with the pose of the ROS 1 message
  constructor as the default, the poses of a path of three cells keep the orientation
  \<open>(0, 0, 0, 0)\<close>, which is not the identity rotation \<open>(0, 0, 0, 1)\<close>.
\<close>

theorem short_path_orientation_is_not_the_identity:
  "planToWorld ros_env [0, 1, 2] [0, 0, 0] [] =
     Some [\<lparr>stamp = 7, frame_id = ''map'', position_x = 0, position_y = 0, position_z = 0,
            orientation = \<lparr>quat_x = 0, quat_y = 0, quat_z = 0, quat_w = 0\<rparr>\<rparr>,
           \<lparr>stamp = 7, frame_id = ''map'', position_x = 1, position_y = 0, position_z = 0,
            orientation = \<lparr>quat_x = 0, quat_y = 0, quat_z = 0, quat_w = 0\<rparr>\<rparr>,
           \<lparr>stamp = 7, frame_id = ''map'', position_x = 2, position_y = 0, position_z = 0,
            orientation = \<lparr>quat_x = 0, quat_y = 0, quat_z = 0, quat_w = 0\<rparr>\<rparr>] \<and>
   \<lparr>quat_x = 0, quat_y = 0, quat_z = 0, quat_w = 0\<rparr> \<noteq> identity_quaternion"
  by (simp add: planToWorld_def planToWorld_step_def resize_vec_def uint_plus_def upt_rec
      ros_env_def ros_default_pose_def identity_quaternion_def)

text \<open>
  Claim C7, amended. For a cell path of \<open>n\<close> cells, with a y for every x and with
  \<open>n + 5 \<le> 2 ^ 32\<close> so that the index arithmetic does not wrap around, \<open>planToWorld\<close>
  gives \<open>n\<close> poses, and the pose at index \<open>i\<close> has: for \<open>i + 5 < n\<close> the
  quaternion of the yaw \<open>atan2\<close> of the world displacement from cell \<open>i\<close> to cell
  \<open>i + 5\<close>; for \<open>i + 5 \<ge> n\<close> and \<open>n > 5\<close> the orientation of the pose before it;
  and for a path of at most 5 cells the orientation of the default pose that
  \<^verbatim>\<open>resize\<close> filled in.
\<close>

theorem planToWorld_orientation:
  assumes "length plan_xs \<le> length plan_ys" and "length plan_xs + 5 \<le> 2 ^ 32"
    and "i < length plan_xs"
  shows "\<exists>plan. planToWorld e plan_xs plan_ys [] = Some plan \<and> length plan = length plan_xs \<and>
     (i + 5 < length plan_xs \<longrightarrow>
        orientation (plan ! i) =
          createQuaternionMsgFromYaw e
            (d_atan2 e
              (d_minus e (snd (mapToWorld e (plan_xs ! (i + 5)) (plan_ys ! (i + 5))))
                         (snd (mapToWorld e (plan_xs ! i) (plan_ys ! i))))
              (d_minus e (fst (mapToWorld e (plan_xs ! (i + 5)) (plan_ys ! (i + 5))))
                         (fst (mapToWorld e (plan_xs ! i) (plan_ys ! i)))))) \<and>
     (length plan_xs \<le> i + 5 \<and> 5 < length plan_xs \<longrightarrow>
        orientation (plan ! i) = orientation (plan ! (i - 1))) \<and>
     (length plan_xs \<le> 5 \<longrightarrow> orientation (plan ! i) = orientation (default_pose e))"
proof -
  let ?n = "length plan_xs"
  let ?p0 = "resize_vec ?n (default_pose e) []"
  let ?f = "fold (planToWorld_step e plan_xs plan_ys)"
  let ?plan = "?f [0..<?n] ?p0"
  have len0: "length ?p0 = ?n" by (simp add: resize_vec_def)
  have p0: "?p0 ! i = default_pose e" using assms(3) by (simp add: resize_vec_def)
  have res: "planToWorld e plan_xs plan_ys [] = Some ?plan"
    using assms(1,2) by (simp add: planToWorld_def)
  have "i + 5 < (2::nat) ^ 32"
    using assms(2,3) by linarith
  then have nowrap: "uint_plus i 5 = i + 5"
    unfolding uint_plus_def by (rule mod_less)
  have at: "orientation (?plan ! i) =
      orientation (planToWorld_step e plan_xs plan_ys i (?f [0..<i] ?p0) ! i)"
    by (simp only: fold_step_at [OF assms(3)])
  have li: "i < length (?f [0..<i] ?p0)" using assms(3) len0 by simp
  have same: "?f [0..<i] ?p0 ! i = ?p0 ! i" by (simp add: fold_step_other)
  have prev: "?f [0..<i] ?p0 ! (i - 1) = ?plan ! (i - 1)" if "0 < i"
    using that assms(3) fold_step_before [of "i - 1" i ?n] by simp
  have c1: "orientation (?plan ! i) =
          createQuaternionMsgFromYaw e
            (d_atan2 e
              (d_minus e (snd (mapToWorld e (plan_xs ! (i + 5)) (plan_ys ! (i + 5))))
                         (snd (mapToWorld e (plan_xs ! i) (plan_ys ! i))))
              (d_minus e (fst (mapToWorld e (plan_xs ! (i + 5)) (plan_ys ! (i + 5))))
                         (fst (mapToWorld e (plan_xs ! i) (plan_ys ! i)))))"
    if "i + 5 < ?n"
    using that by (simp add: at step_orientation [OF li] nowrap)
  have c2: "orientation (?plan ! i) = orientation (?plan ! (i - 1))"
    if "?n \<le> i + 5" "5 < ?n"
  proof -
    from that have "0 < i" by simp
    from prev [OF this] that show ?thesis
      by (simp add: at step_orientation [OF li] nowrap)
  qed
  have c3: "orientation (?plan ! i) = orientation (default_pose e)" if "?n \<le> 5"
    using that by (simp add: at step_orientation [OF li] nowrap same p0)
  from res c1 c2 c3 show ?thesis by (simp add: len0)
qed

text \<open>
  On the small costmap, where the yaw of the displacement \<open>(dx, dy)\<close> is read as
  \<open>10 * dy + dx\<close> and the default orientation as \<open>- 1\<close>: a path of seven cells at
  the indices 1 and 6, and a path of three cells.
\<close>

theorem planToWorld_orientation_witness:
  "orientation (the (planToWorld (demo_env search_nothing) [0, 1, 2, 3, 0, 1, 3] [0, 0, 0, 0, 0, 0, 0] []) ! 1) = 2 \<and>
   orientation (the (planToWorld (demo_env search_nothing) [0, 1, 2, 3, 0, 1, 3] [0, 0, 0, 0, 0, 0, 0] []) ! 6) =
   orientation (the (planToWorld (demo_env search_nothing) [0, 1, 2, 3, 0, 1, 3] [0, 0, 0, 0, 0, 0, 0] []) ! 5) \<and>
   orientation (the (planToWorld (demo_env search_nothing) [0, 1, 2] [0, 0, 0] []) ! 2) = - 1"
  using planToWorld_orientation [of "[0, 1, 2, 3, 0, 1, 3]" "[0, 0, 0, 0, 0, 0, 0]" 1 "demo_env search_nothing"]
        planToWorld_orientation [of "[0, 1, 2, 3, 0, 1, 3]" "[0, 0, 0, 0, 0, 0, 0]" 6 "demo_env search_nothing"]
        planToWorld_orientation [of "[0, 1, 2]" "[0, 0, 0]" 2 "demo_env search_nothing"]
  by (auto simp: demo_env_def demo_pose_def)

lemma checkPlan_iff:
  "checkPlan e ps \<longleftrightarrow>
     (\<forall>p \<in> set ps. \<forall>mx my. worldToMap e (position_x p) (position_y p) = Some (mx, my) \<longrightarrow>
        getCost e mx my \<noteq> LETHAL_OBSTACLE e \<and> getCost e mx my \<noteq> INSCRIBED_INFLATED_OBSTACLE e)"
  by (induction ps) (auto simp: Let_def split: option.splits)

text \<open>
  Claim C8. \<open>checkPlan\<close> returns false if and only if some pose of the path converts
  from world to grid coordinates and the cost of its cell is one of the two obstacle
  costs. A pose whose conversion fails is no such pose, so it is passed over, and a
  path without such a pose gives true.
\<close>

theorem checkPlan_false_iff_obstacle_pose:
  "(\<not> checkPlan e ps) =
     (\<exists>p \<in> set ps. \<exists>mx my. worldToMap e (position_x p) (position_y p) = Some (mx, my) \<and>
        (getCost e mx my = LETHAL_OBSTACLE e \<or> getCost e mx my = INSCRIBED_INFLATED_OBSTACLE e))"
  by (auto simp: checkPlan_iff)

text \<open>
  On the small costmap: a path with a pose off the grid, a free pose and a pose on the
  inscribed cell is rejected; without the last pose it is accepted.
\<close>

theorem checkPlan_false_iff_obstacle_pose_witness:
  "\<not> checkPlan (demo_env search_nothing) [demo_pose 9 0 0, demo_pose 1 0 0, demo_pose 3 0 0] \<and>
   checkPlan (demo_env search_nothing) [demo_pose 9 0 0, demo_pose 1 0 0]"
  using checkPlan_false_iff_obstacle_pose
          [of "demo_env search_nothing" "[demo_pose 9 0 0, demo_pose 1 0 0, demo_pose 3 0 0]"]
        checkPlan_false_iff_obstacle_pose
          [of "demo_env search_nothing" "[demo_pose 9 0 0, demo_pose 1 0 0]"]
  by (simp add: demo_env_def demo_pose_def)

text \<open>
  Claim C9. When the lookup of the transform succeeds, the projection retains exactly the
  cached region points whose world position converts to a cell with neither obstacle
  cost, in the order of the region: the goal cells are the cells of the retained points
  and the goal positions are their world positions, one for one.
\<close>

theorem projection_keeps_the_free_cells_on_the_grid:
  assumes "lookupTransform e (getGlobalFrameID e) (frame (m_position_constraint s)) = Some tf"
  shows "calculateMapConstraintArea e s [] [] [] =
           (map (\<lambda>(pw, x, y). x) (List.map_filter (retained e tf) (m_goal_positions_in_constraint_frame s)),
            map (\<lambda>(pw, x, y). y) (List.map_filter (retained e tf) (m_goal_positions_in_constraint_frame s)),
            map (\<lambda>(pw, x, y). pw) (List.map_filter (retained e tf) (m_goal_positions_in_constraint_frame s)))"
  using assms by (simp add: calculateMapConstraintArea_def project_points_retained)

text \<open>
  On the small costmap: of a free point, a lethal one, one off the grid, another free
  one and an inscribed one, the two free points are retained.
\<close>

theorem projection_keeps_the_free_cells_on_the_grid_witness:
  "calculateMapConstraintArea (demo_env search_nothing)
     (demo_planner\<lparr>m_goal_positions_in_constraint_frame :=
        [\<lparr>px = 1, py = 0, pz = 0\<rparr>, \<lparr>px = 2, py = 0, pz = 0\<rparr>, \<lparr>px = 9, py = 0, pz = 0\<rparr>,
         \<lparr>px = 0, py = 0, pz = 0\<rparr>, \<lparr>px = 3, py = 0, pz = 0\<rparr>]\<rparr>) [] [] [] =
   ([1, 0], [0, 0], [\<lparr>px = 1, py = 0, pz = 0\<rparr>, \<lparr>px = 0, py = 0, pz = 0\<rparr>])"
proof -
  let ?s = "demo_planner\<lparr>m_goal_positions_in_constraint_frame :=
        [\<lparr>px = 1, py = 0, pz = 0\<rparr>, \<lparr>px = 2, py = 0, pz = 0\<rparr>, \<lparr>px = 9, py = 0, pz = 0\<rparr>,
         \<lparr>px = 0, py = 0, pz = 0\<rparr>, \<lparr>px = 3, py = 0, pz = 0\<rparr>]\<rparr>"
  have h: "lookupTransform (demo_env search_nothing) (getGlobalFrameID (demo_env search_nothing))
             (frame (m_position_constraint ?s)) = Some (\<lambda>p. p)"
    by (simp add: demo_fields demo_planner_def near_beacon_def)
  from projection_keeps_the_free_cells_on_the_grid [OF h] show ?thesis
    by (simp add: retained_def demo_env_def)
qed

text \<open>
  Not every failed call of an initialised planner leaves both outputs empty: when there
  are goal cells and both searches find nothing, the call returns false with the goal
  positions filled in.
\<close>

theorem exhausted_search_keeps_goal_positions:
  "m_initialized demo_planner \<and>
   ret (makePlan (demo_env search_nothing) demo_planner origin near_beacon [] []) = Some False \<and>
   goal_positions_out (makePlan (demo_env search_nothing) demo_planner origin near_beacon [] []) =
     [\<lparr>px = 0, py = 0, pz = 0\<rparr>, \<lparr>px = 1, py = 0, pz = 0\<rparr>]"
proof -
  have fc: "find_cell_path (demo_env search_nothing) [0, 1] [0, 0] 0 0 =
      (([], []),
       [Search \<lparr>goal_xs = [0, 1], goal_ys = [0, 0], start_x = 0, start_y = 0, plan_xs_in = [],
                plan_ys_in = [], reversed = None\<rparr> ([], []),
        Search \<lparr>goal_xs = [0], goal_ys = [0], start_x = 1, start_y = 0, plan_xs_in = [],
                plan_ys_in = [], reversed = Some True\<rparr> ([], [])])"
    by (simp add: find_cell_path_def demo_fields search_nothing_def)
  show ?thesis
    by (simp add: makePlan_def demo_refresh demo_area fc planToWorld_no_cells demo_fields origin_def)
       (simp add: demo_planner_def near_beacon_def)
qed

text \<open>
  Claim C10, amended. A call on a planner that is not initialised returns false with
  both outputs as the caller handed them in. A call on an initialised planner that
  returns false leaves the plan empty; it leaves the goal positions empty exactly when
  it made no search. A call on an initialised planner whose projection produced goal
  cells and whose searches all left \<^verbatim>\<open>plan_xs\<close> empty returns false with the plan empty
  and the goal positions as the projection produced them, one for every goal cell.
\<close>

theorem failed_call_outputs:
  "(\<not> m_initialized s \<longrightarrow>
      ret (makePlan e s start pc plan gps) = Some False \<and>
      plan_out (makePlan e s start pc plan gps) = plan \<and>
      goal_positions_out (makePlan e s start pc plan gps) = gps) \<and>
   (m_initialized s \<and> ret (makePlan e s start pc plan gps) = Some False \<longrightarrow>
      plan_out (makePlan e s start pc plan gps) = [] \<and>
      (goal_positions_out (makePlan e s start pc plan gps) = [] \<longleftrightarrow>
       filter is_search (calls (makePlan e s start pc plan gps)) = [])) \<and>
   (m_initialized s \<and> Project mx my \<in> set (calls (makePlan e s start pc plan gps)) \<and>
    mx \<noteq> [] \<and>
    (\<forall>a xs ys. Search a (xs, ys) \<in> set (calls (makePlan e s start pc plan gps)) \<longrightarrow> xs = []) \<longrightarrow>
      ret (makePlan e s start pc plan gps) = Some False \<and>
      plan_out (makePlan e s start pc plan gps) = [] \<and>
      calculateMapConstraintArea e (planner_out (makePlan e s start pc plan gps)) [] [] [] =
        (mx, my, goal_positions_out (makePlan e s start pc plan gps)) \<and>
      length (goal_positions_out (makePlan e s start pc plan gps)) = length mx)"
proof (cases rule: makePlan_cases [of s e start pc plan gps])
  case (rebuild_failed sx sy s1 c1)
  from refresh_region_calls [OF rebuild_failed(4)]
  show ?thesis unfolding rebuild_failed(5) by (auto simp: rebuild_failed(1) split: if_splits)
next
  case (no_goal sx sy s1 c1 my')
  from refresh_region_calls [OF no_goal(4)]
  show ?thesis unfolding no_goal(6) by (auto simp: no_goal(1) split: if_splits)
next
  case (fault sx sy s1 c1 mx' my' gp xs ys c4)
  have "\<not> (\<forall>a xs ys. Search a (xs, ys) \<in> set c4 \<longrightarrow> xs = [])"
  proof
    assume "\<forall>a xs ys. Search a (xs, ys) \<in> set c4 \<longrightarrow> xs = []"
    from find_cell_path_nothing [OF fault(7) this] fault(8) show False
      by (simp add: planToWorld_no_cells)
  qed
  then show ?thesis unfolding fault(9) by (auto simp: fault(1))
next
  case (planned sx sy s1 c1 mx' my' gp xs ys c4 plan')
  let ?r = "makePlan e s start pc plan gps"
  from area_lengths [OF planned(5)] planned(6) have gp: "gp \<noteq> []" "length gp = length mx'"
    by auto
  have os: "\<forall>ev \<in> set c4. is_search ev" and "c4 \<noteq> []"
    by (rule find_cell_path_calls [OF planned(7)])+
  then have ns: "filter is_search c4 \<noteq> []"
    by (cases c4) auto
  have first: "\<not> m_initialized s \<longrightarrow>
      ret ?r = Some False \<and> plan_out ?r = plan \<and> goal_positions_out ?r = gps"
    by (simp add: planned(1))
  have second: "m_initialized s \<and> ret ?r = Some False \<longrightarrow>
      plan_out ?r = [] \<and>
      (goal_positions_out ?r = [] \<longleftrightarrow> filter is_search (calls ?r) = [])"
    unfolding planned(9) using gp ns by simp
  have third: "ret ?r = Some False \<and> plan_out ?r = [] \<and>
      calculateMapConstraintArea e (planner_out ?r) [] [] [] = (mx, my, goal_positions_out ?r) \<and>
      length (goal_positions_out ?r) = length mx"
    if pr: "Project mx my \<in> set (calls ?r)"
      and em: "\<forall>a xs ys. Search a (xs, ys) \<in> set (calls ?r) \<longrightarrow> xs = []"
  proof -
    from em have "\<forall>a xs ys. Search a (xs, ys) \<in> set c4 \<longrightarrow> xs = []"
      unfolding planned(9) by simp
    from find_cell_path_nothing [OF planned(7) this] planned(8) have p: "plan' = []"
      by (simp add: planToWorld_no_cells)
    have "Project mx my \<notin> set c1"
      using refresh_region_calls [OF planned(4)] by (simp split: if_splits)
    moreover have "Project mx my \<notin> set c4"
      using os by auto
    ultimately have "mx = mx'" "my = my'"
      using pr unfolding planned(9) by simp_all
    then show ?thesis
      unfolding planned(9) using p gp(2) planned(5) by simp
  qed
  from first second third show ?thesis by blast
next
  case uninitialized
  then show ?thesis by simp
next
  case sentinel
  then show ?thesis by simp
next
  case off_map
  then show ?thesis by simp
qed

text \<open>
  On the small costmap: a failed rebuild on the initialised planner empties both
  outputs, the planner that is not initialised leaves them alone, and the search
  primitive that finds nothing leaves the two goal positions.
\<close>

theorem failed_call_outputs_witness:
  "plan_out (makePlan (demo_env search_nothing) demo_planner origin near_lost [demo_pose 1 0 0] [origin]) = [] \<and>
   goal_positions_out (makePlan (demo_env search_nothing) demo_planner origin near_lost [demo_pose 1 0 0] [origin]) = [] \<and>
   plan_out (makePlan (demo_env search_nothing) fresh_planner origin near_lost [demo_pose 1 0 0] [origin]) = [demo_pose 1 0 0] \<and>
   goal_positions_out (makePlan (demo_env search_nothing) fresh_planner origin near_lost [demo_pose 1 0 0] [origin]) = [origin] \<and>
   ret (makePlan (demo_env search_nothing) demo_planner origin near_beacon [demo_pose 1 0 0] [origin]) = Some False \<and>
   length (goal_positions_out
     (makePlan (demo_env search_nothing) demo_planner origin near_beacon [demo_pose 1 0 0] [origin])) = 2"
proof -
  let ?e = "demo_env search_nothing"
  have rr: "refresh_region ?e demo_planner near_lost =
      (False, demo_planner\<lparr>m_goal_positions_in_constraint_frame := []\<rparr>, [Rebuild near_lost False])"
    by (simp add: refresh_region_def constraintChanged_def demo_planner_def near_beacon_def
        near_lost_def updateConstraintPositionsInConstraintFrame_def demo_fields)
  have r: "makePlan ?e demo_planner origin near_lost [demo_pose 1 0 0] [origin] =
      \<lparr>ret = Some False, plan_out = [], goal_positions_out = [],
       planner_out = demo_planner\<lparr>m_goal_positions_in_constraint_frame := []\<rparr>,
       calls = [Rebuild near_lost False]\<rparr>"
    by (simp add: makePlan_def rr demo_fields origin_def) (simp add: demo_planner_def near_lost_def)
  have i: "m_initialized demo_planner" "\<not> m_initialized fresh_planner"
    by (simp_all add: demo_planner_def fresh_planner_def)
  have cs: "calls (makePlan ?e demo_planner origin near_beacon [demo_pose 1 0 0] [origin]) =
      [Project [0, 1] [0, 0], Resize 4 1, SetCostmap,
       Search \<lparr>goal_xs = [0, 1], goal_ys = [0, 0], start_x = 0, start_y = 0, plan_xs_in = [],
               plan_ys_in = [], reversed = None\<rparr> ([], []),
       Search \<lparr>goal_xs = [0], goal_ys = [0], start_x = 1, start_y = 0, plan_xs_in = [],
               plan_ys_in = [], reversed = Some True\<rparr> ([], []),
       Materialize [] []]"
    by (simp add: makePlan_calls [OF demo_start(1,2,3) demo_refresh demo_area _ demo_nothing]
        demo_fields)
  from failed_call_outputs [of demo_planner ?e origin near_lost "[demo_pose 1 0 0]" "[origin]"]
  have a: "plan_out (makePlan ?e demo_planner origin near_lost [demo_pose 1 0 0] [origin]) = [] \<and>
      goal_positions_out (makePlan ?e demo_planner origin near_lost [demo_pose 1 0 0] [origin]) = []"
    by (simp add: i r)
  from failed_call_outputs [of fresh_planner ?e origin near_lost "[demo_pose 1 0 0]" "[origin]"]
  have b: "plan_out (makePlan ?e fresh_planner origin near_lost [demo_pose 1 0 0] [origin]) =
        [demo_pose 1 0 0] \<and>
      goal_positions_out (makePlan ?e fresh_planner origin near_lost [demo_pose 1 0 0] [origin]) =
        [origin]"
    by (simp add: i)
  from failed_call_outputs
         [of demo_planner ?e origin near_beacon "[demo_pose 1 0 0]" "[origin]" "[0, 1]" "[0, 0]"]
  have c: "ret (makePlan ?e demo_planner origin near_beacon [demo_pose 1 0 0] [origin]) = Some False \<and>
      length (goal_positions_out
        (makePlan ?e demo_planner origin near_beacon [demo_pose 1 0 0] [origin])) = 2"
    by (simp add: i cs)
  from a b c show ?thesis by simp
qed

end
